theory Spec2Isabelle
  imports Main
begin

section \<open>Domain entities\<close>

text \<open>
  The records follow the type declarations at the top of \<^verbatim>\<open>src/index.tsx\<close>. Several
  TypeScript types share the field names \<^verbatim>\<open>id\<close>, \<^verbatim>\<open>name\<close>, \<^verbatim>\<open>type\<close>, \<^verbatim>\<open>status\<close> and
  \<^verbatim>\<open>workHours\<close>; here those fields carry the name of their type as a prefix. A JavaScript
  \<^verbatim>\<open>number\<close> that holds an id, a counter or a time value is an \<^typ>\<open>int\<close>; an optional
  or nullable field is an \<^typ>\<open>'a option\<close>.
\<close>

datatype Permission = delete_content | create_festivals | manage_users

record User =
  user_id :: int
  user_name :: string
  nickname :: "string option"
  email :: string
  phone :: "string option"
  primarySauna :: string
  avatarUrl :: string
  qualifications :: "string list"
  awards :: "string list"
  aufgussCount :: int
  user_workHours :: int
  isAdmin :: bool
  permissions :: "Permission list"
  user_status :: string
  shortNoticeCancellations :: int
  username :: "string option"
  showInMemberList :: bool
  lastProfileUpdate :: "int option"
  lastAufgussShareTimestamp :: "int option"
  motto :: "string option"

record Aufguss =
  aufguss_id :: string
  location :: string
  sauna :: string
  date :: string
  time :: string
  aufgussmeisterId :: "int option"
  aufgussmeisterName :: "string option"
  aufguss_type :: "string option"

datatype ParticipantStatus = attending | not_attending | pending

record AufgussProposal =
  proposal_id :: string
  proposal_name :: string

record FestivalParticipant =
  userId :: int
  participant_status :: ParticipantStatus
  aufgussAvailability :: "string list"
  participant_workHours :: int
  hoursLogged :: bool
  aufgussProposals :: "AufgussProposal list"

record FestivalTask =
  task_id :: int
  description :: string
  responsible :: "int option"

record Festival =
  festival_id :: string
  festival_name :: string
  startDate :: string
  endDate :: string
  rsvpDeadline :: string
  festival_location :: string
  numberOfSaunas :: int
  aufgussTimes :: "string list"
  tasks :: "FestivalTask list"
  participants :: "FestivalParticipant list"

record Comment =
  comment_id :: int
  comment_userId :: int
  comment_text :: string

record PollOption =
  option_text :: string
  votes :: "int list"

record PollData =
  question :: string
  options :: "PollOption list"

datatype PostType = text_post | poll | image | embed

record Post =
  post_id :: int
  post_userId :: int
  post_type :: PostType
  content :: string
  pollData :: "PollData option"
  imageUrl :: "string option"
  embedUrl :: "string option"
  timestamp :: string
  likes :: "int list"
  comments :: "Comment list"

section \<open>Application state\<close>

text \<open>
  The \<^verbatim>\<open>App\<close> component holds the collections in \<^verbatim>\<open>useState\<close> cells. A handler reads the
  cells of the render it was created in and writes new values with the setters; the
  model passes the state in and returns the state after the setters. The persistence
  calls (\<^verbatim>\<open>apiClient.save...\<close>) write the same values to local storage and change no
  cell, so they do not appear.

  The handlers read the acting user as \<^verbatim>\<open>currentUser!\<close>, TypeScript's assertion that the
  cell is not null: they are passed only to the pages that \<^verbatim>\<open>renderView\<close> builds, and
  \<^verbatim>\<open>renderView\<close> returns early when \<^verbatim>\<open>currentUser\<close> is null. The model therefore takes
  the acting user as an argument \<open>cu\<close> of type \<^typ>\<open>User\<close>; the field \<open>currentUser\<close> of
  the state is the cell as \<^verbatim>\<open>setCurrentUser\<close> leaves it.
\<close>

record AppState =
  users :: "User list"
  posts :: "Post list"
  festivals :: "Festival list"
  aufguesse :: "Aufguss list"
  availableQuals :: "string list"
  selectedFestivalId :: string
  currentUser :: "User option"

subsection \<open>Qualifications\<close>

text \<open>
  \<^verbatim>\<open>handleDeleteQual\<close>: filters the name out of \<^verbatim>\<open>availableQuals\<close>, then maps every user
  to a copy whose \<^verbatim>\<open>qualifications\<close> are filtered the same way.
\<close>

definition handleDeleteQual :: "AppState \<Rightarrow> string \<Rightarrow> AppState" where
  "handleDeleteQual st qualToDelete =
     (let newAvailableQuals = filter (\<lambda>q. q \<noteq> qualToDelete) (availableQuals st);
          newUsers = map (\<lambda>u. u\<lparr>qualifications :=
                        filter (\<lambda>q. q \<noteq> qualToDelete) (qualifications u)\<rparr>) (users st)
      in st\<lparr>availableQuals := newAvailableQuals, users := newUsers\<rparr>)"

subsection \<open>Social feed\<close>

text \<open>
  \<^verbatim>\<open>handleLikePost\<close>: every post whose id is \<^verbatim>\<open>postId\<close> gets a new like list, the old one
  without the acting user's id when it was there (\<^verbatim>\<open>filter\<close>), with the id appended
  otherwise.
\<close>

definition handleLikePost :: "User \<Rightarrow> AppState \<Rightarrow> int \<Rightarrow> AppState" where
  "handleLikePost cu st postId =
     (let newPosts = map (\<lambda>p.
            if post_id p = postId then
              (let liked = (user_id cu \<in> set (likes p));
                   newLikes = (if liked then filter (\<lambda>i. i \<noteq> user_id cu) (likes p)
                               else likes p @ [user_id cu])
               in p\<lparr>likes := newLikes\<rparr>)
            else p) (posts st)
      in st\<lparr>posts := newPosts\<rparr>)"

text \<open>
  \<^verbatim>\<open>onVote\<close>: a post is touched when its id matches, its type is \<^verbatim>\<open>'poll'\<close> and it has
  poll data. If some option already lists the acting user the post is returned as it
  is; otherwise the option whose array index equals \<^verbatim>\<open>optionIndex\<close> gets the id appended.
  \<^verbatim>\<open>optionIndex\<close> is a \<^verbatim>\<open>number\<close>, compared with \<^verbatim>\<open>===\<close> to the index: an index that no
  option has changes nothing.
\<close>

definition voteOption :: "int \<Rightarrow> int \<Rightarrow> nat \<times> PollOption \<Rightarrow> PollOption" where
  "voteOption uid optionIndex io =
     (case io of (index, opt) \<Rightarrow>
        if int index = optionIndex then opt\<lparr>votes := votes opt @ [uid]\<rparr> else opt)"

definition votePost :: "int \<Rightarrow> int \<Rightarrow> int \<Rightarrow> Post \<Rightarrow> Post" where
  "votePost uid postId optionIndex p =
     (if post_id p = postId \<and> post_type p = poll then
        (case pollData p of
           None \<Rightarrow> p
         | Some pd \<Rightarrow>
             if list_ex (\<lambda>opt. uid \<in> set (votes opt)) (options pd) then p
             else
               (let newOptions = map (voteOption uid optionIndex) (enumerate 0 (options pd))
                in p\<lparr>pollData := Some (pd\<lparr>options := newOptions\<rparr>)\<rparr>))
      else p)"

definition onVote :: "User \<Rightarrow> AppState \<Rightarrow> int \<Rightarrow> int \<Rightarrow> AppState" where
  "onVote cu st postId optionIndex =
     st\<lparr>posts := map (votePost (user_id cu) postId optionIndex) (posts st)\<rparr>"

text \<open>A run of votes, each by its own acting user: (user, postId, optionIndex).\<close>

fun runVotes :: "AppState \<Rightarrow> (User \<times> int \<times> int) list \<Rightarrow> AppState" where
  "runVotes st [] = st"
| "runVotes st ((cu, postId, optionIndex) # vs) = runVotes (onVote cu st postId optionIndex) vs"

text \<open>The number of times a user id occurs in the vote lists of one poll.\<close>

definition totalVotes :: "int \<Rightarrow> PollData \<Rightarrow> nat" where
  "totalVotes uid pd = sum_list (map (\<lambda>opt. count_list (votes opt) uid) (options pd))"

text \<open>The bound of the data model for one user: at most one vote in each poll.\<close>

definition votesWithinBound :: "int \<Rightarrow> Post list \<Rightarrow> bool" where
  "votesWithinBound uid ps =
     list_all (\<lambda>p. case pollData p of None \<Rightarrow> True | Some pd \<Rightarrow> totalVotes uid pd \<le> 1) ps"

subsection \<open>Aufguss slots\<close>

text \<open>
  \<^verbatim>\<open>handleClaimAufguss\<close>: maps the slots, replacing the owner fields of every slot whose id
  matches; then maps the users, adding one to the count of every user whose id is the
  acting user's; \<^verbatim>\<open>setCurrentUser\<close> gets the first such user of the new list, or null.
  The handler has no test of \<^verbatim>\<open>aufgussmeisterId\<close>.
\<close>

definition handleClaimAufguss :: "User \<Rightarrow> AppState \<Rightarrow> string \<Rightarrow> string \<Rightarrow> AppState" where
  "handleClaimAufguss cu st aufgussId ty =
     (let newAufguesse = map (\<lambda>a.
            if aufguss_id a = aufgussId
            then a\<lparr>aufgussmeisterId := Some (user_id cu),
                   aufgussmeisterName := Some (user_name cu),
                   aufguss_type := Some ty\<rparr>
            else a) (aufguesse st);
          newUsers = map (\<lambda>u.
            if user_id u = user_id cu then u\<lparr>aufgussCount := aufgussCount u + 1\<rparr> else u)
            (users st)
      in st\<lparr>aufguesse := newAufguesse, users := newUsers,
             currentUser := find (\<lambda>u. user_id u = user_id cu) newUsers\<rparr>)"

text \<open>
  \<^verbatim>\<open>handleCancelAufguss\<close>. The first slot with the id is looked up; the handler returns
  when there is none or when its \<^verbatim>\<open>aufgussmeisterId\<close> is falsy (null, and also the number
  0). Then \<^verbatim>\<open>window.confirm\<close> asks the user; the answer is the argument \<open>confirmed\<close>.
  \<^verbatim>\<open>new Date(`${date}T${time}`).getTime()\<close> is the platform's date parser; it is the
  argument \<open>parseDateTime\<close>, \<open>None\<close> standing for the NaN of a text that is no date
  (every comparison with NaN is false). \<open>now\<close> is \<^verbatim>\<open>Date.now()\<close>.
\<close>

definition isShortNotice :: "(string \<Rightarrow> int option) \<Rightarrow> int \<Rightarrow> Aufguss \<Rightarrow> bool" where
  "isShortNotice parseDateTime now a =
     (case parseDateTime (date a @ ''T'' @ time a) of
        None \<Rightarrow> False
      | Some aufgussDateTime \<Rightarrow> aufgussDateTime - now < 24 * 60 * 60 * 1000)"

definition handleCancelAufguss ::
  "(string \<Rightarrow> int option) \<Rightarrow> bool \<Rightarrow> int \<Rightarrow> User \<Rightarrow> AppState \<Rightarrow> string \<Rightarrow> AppState" where
  "handleCancelAufguss parseDateTime confirmed now cu st aufgussId =
     (case find (\<lambda>a. aufguss_id a = aufgussId) (aufguesse st) of
        None \<Rightarrow> st
      | Some aufgussToCancel \<Rightarrow>
          (case aufgussmeisterId aufgussToCancel of
             None \<Rightarrow> st
           | Some meisterId \<Rightarrow>
               if meisterId = 0 then st
               else if \<not> confirmed then st
               else
                 (let shortNotice = isShortNotice parseDateTime now aufgussToCancel;
                      newAufguesse = map (\<lambda>a.
                        if aufguss_id a = aufgussId
                        then a\<lparr>aufgussmeisterId := None, aufgussmeisterName := None,
                               aufguss_type := None\<rparr>
                        else a) (aufguesse st);
                      newUsers = map (\<lambda>u.
                        if user_id u = meisterId then
                          (let newCount = (if aufgussCount u > 0 then aufgussCount u - 1 else 0);
                               newCancellations =
                                 (if shortNotice then shortNoticeCancellations u + 1
                                  else shortNoticeCancellations u)
                           in u\<lparr>aufgussCount := newCount,
                                 shortNoticeCancellations := newCancellations\<rparr>)
                        else u) (users st)
                  in st\<lparr>aufguesse := newAufguesse, users := newUsers,
                         currentUser := find (\<lambda>u. user_id u = user_id cu) newUsers\<rparr>)))"

subsection \<open>Festivals\<close>

text \<open>
  \<^verbatim>\<open>onDeleteFestival\<close>, behind \<^verbatim>\<open>window.confirm\<close> (the argument \<open>confirmed\<close>): filters the
  festival out; when the selected id is the deleted one the selection becomes the id of
  the first festival left, or the empty string.
\<close>

definition onDeleteFestival :: "bool \<Rightarrow> AppState \<Rightarrow> string \<Rightarrow> AppState" where
  "onDeleteFestival confirmed st festivalId =
     (if confirmed then
        (let newFestivals = filter (\<lambda>f. festival_id f \<noteq> festivalId) (festivals st);
             st1 = st\<lparr>festivals := newFestivals\<rparr>
         in if selectedFestivalId st = festivalId then
              (let newId = (case newFestivals of [] \<Rightarrow> '''' | f # _ \<Rightarrow> festival_id f)
               in st1\<lparr>selectedFestivalId := newId\<rparr>)
            else st1)
      else st)"

section \<open>Dates\<close>

text \<open>
  A JavaScript \<^verbatim>\<open>Date\<close> holds a time value, the milliseconds since 1970-01-01T00:00Z; the
  model is that \<^typ>\<open>int\<close>. An invalid date (NaN, or a time value beyond the range of
  100 million days around 1970) is not modelled. The accessors follow the abstract operations of
  the language standard (\<^verbatim>\<open>Day\<close>, \<^verbatim>\<open>TimeWithinDay\<close>, \<^verbatim>\<open>WeekDay\<close>, \<^verbatim>\<open>MakeDay\<close>, \<^verbatim>\<open>MakeDate\<close>);
  the proleptic Gregorian calendar is computed by day arithmetic on 400-year eras that
  start on 1 March. The local zone is the argument \<open>tza\<close>, the offset of local time
  from UTC in milliseconds, taken as constant (no change of daylight saving time within
  the dates handled).
\<close>

type_synonym Date = int

definition msPerDay :: int where "msPerDay = 86400000"

definition Day :: "int \<Rightarrow> int" where "Day t = t div msPerDay"

definition TimeWithinDay :: "int \<Rightarrow> int" where "TimeWithinDay t = t mod msPerDay"

definition WeekDay :: "int \<Rightarrow> int" where "WeekDay t = (Day t + 4) mod 7"

definition eraOf :: "int \<Rightarrow> int" where "eraOf z = (z + 719468) div 146097"

definition dayOfEra :: "int \<Rightarrow> int" where "dayOfEra z = (z + 719468) mod 146097"

definition centuryOfEra :: "int \<Rightarrow> int" where "centuryOfEra doe = min 3 (doe div 36524)"

definition dayOfCentury :: "int \<Rightarrow> int" where
  "dayOfCentury doe = doe - centuryOfEra doe * 36524"

definition yearOfCycle :: "int \<Rightarrow> int" where "yearOfCycle doq = min 3 (doq div 365)"

definition yearOfEra :: "int \<Rightarrow> int" where
  "yearOfEra doe = centuryOfEra doe * 100 + (dayOfCentury doe div 1461) * 4
                   + yearOfCycle (dayOfCentury doe mod 1461)"

definition dayOfYear :: "int \<Rightarrow> int" where
  "dayOfYear doe = dayOfCentury doe mod 1461 - yearOfCycle (dayOfCentury doe mod 1461) * 365"

definition monthFromMarch :: "int \<Rightarrow> int" where "monthFromMarch doy = (5 * doy + 2) div 153"

definition dayBeforeMonth :: "int \<Rightarrow> int" where "dayBeforeMonth mp = (153 * mp + 2) div 5"

text \<open>Month (0 = January), day of the month and year of a day number.\<close>

definition MonthOfDay :: "int \<Rightarrow> int" where
  "MonthOfDay z = (if monthFromMarch (dayOfYear (dayOfEra z)) < 10
                   then monthFromMarch (dayOfYear (dayOfEra z)) + 2
                   else monthFromMarch (dayOfYear (dayOfEra z)) - 10)"

definition DateOfDay :: "int \<Rightarrow> int" where
  "DateOfDay z = dayOfYear (dayOfEra z)
                 - dayBeforeMonth (monthFromMarch (dayOfYear (dayOfEra z))) + 1"

definition YearOfDay :: "int \<Rightarrow> int" where
  "YearOfDay z = yearOfEra (dayOfEra z) + eraOf z * 400 + (if MonthOfDay z \<le> 1 then 1 else 0)"

text \<open>The day number of a year, a month (0 to 11) and a day of the month.\<close>

definition days_from_civil :: "int \<Rightarrow> int \<Rightarrow> int \<Rightarrow> int" where
  "days_from_civil y m d =
     ((if m \<le> 1 then y - 1 else y) div 400) * 146097
     + ((if m \<le> 1 then y - 1 else y) mod 400) * 365
     + ((if m \<le> 1 then y - 1 else y) mod 400) div 4
     - ((if m \<le> 1 then y - 1 else y) mod 400) div 100
     + dayBeforeMonth (if m > 1 then m - 2 else m + 10) + d - 1 - 719468"

text \<open>
  \<^verbatim>\<open>MakeDay\<close>: the day number of the first of the month (months beyond 0 to 11 carry into
  the year), plus \<open>dt - 1\<close>; \<open>dt\<close> may lie outside the month.
\<close>

definition MakeDay :: "int \<Rightarrow> int \<Rightarrow> int \<Rightarrow> int" where
  "MakeDay year month dt = days_from_civil (year + month div 12) (month mod 12) 1 + dt - 1"

definition MakeTime :: "int \<Rightarrow> int \<Rightarrow> int \<Rightarrow> int \<Rightarrow> int" where
  "MakeTime hour minute sec ms = hour * 3600000 + minute * 60000 + sec * 1000 + ms"

definition MakeDate :: "int \<Rightarrow> int \<Rightarrow> int" where
  "MakeDate day tm = day * msPerDay + tm"

definition LocalTime :: "int \<Rightarrow> Date \<Rightarrow> int" where "LocalTime tza t = t + tza"

definition UTC :: "int \<Rightarrow> int \<Rightarrow> Date" where "UTC tza t = t - tza"

definition getFullYear :: "int \<Rightarrow> Date \<Rightarrow> int" where
  "getFullYear tza t = YearOfDay (Day (LocalTime tza t))"

definition getMonth :: "int \<Rightarrow> Date \<Rightarrow> int" where
  "getMonth tza t = MonthOfDay (Day (LocalTime tza t))"

definition getDate :: "int \<Rightarrow> Date \<Rightarrow> int" where
  "getDate tza t = DateOfDay (Day (LocalTime tza t))"

definition getDay :: "int \<Rightarrow> Date \<Rightarrow> int" where
  "getDay tza t = WeekDay (LocalTime tza t)"

definition setHours :: "int \<Rightarrow> Date \<Rightarrow> int \<Rightarrow> int \<Rightarrow> int \<Rightarrow> int \<Rightarrow> Date" where
  "setHours tza t hour minute sec ms =
     UTC tza (MakeDate (Day (LocalTime tza t)) (MakeTime hour minute sec ms))"

definition setDate :: "int \<Rightarrow> Date \<Rightarrow> int \<Rightarrow> Date" where
  "setDate tza t dt =
     UTC tza (MakeDate (MakeDay (getFullYear tza t) (getMonth tza t) dt)
                       (TimeWithinDay (LocalTime tza t)))"

text \<open>
  \<^verbatim>\<open>new Date(year, month, date)\<close>: midnight of that day in local time; a year from 0 to
  99 stands for 1900 plus that year.
\<close>

definition newDate :: "int \<Rightarrow> int \<Rightarrow> int \<Rightarrow> int \<Rightarrow> Date" where
  "newDate tza year month dt =
     UTC tza (MakeDate (MakeDay (if 0 \<le> year \<and> year \<le> 99 then 1900 + year else year) month dt)
                       (MakeTime 0 0 0 0))"

subsection \<open>Text of numbers and dates\<close>

definition digitChar :: "int \<Rightarrow> char" where
  "digitChar n = ''0123456789'' ! nat n"

text \<open>The decimal digits of a number that is not negative.\<close>

function digits :: "int \<Rightarrow> string" where
  "digits n = (if n < 10 then [digitChar n] else digits (n div 10) @ [digitChar (n mod 10)])"
  by pat_completeness auto
termination
  by (relation "measure nat") auto

declare digits.simps [simp del]

text \<open>The text of an integral number, as a template literal gives it.\<close>

definition numberToString :: "int \<Rightarrow> string" where
  "numberToString i = (if i < 0 then CHR ''-'' # digits (- i) else digits i)"

definition padStart :: "nat \<Rightarrow> string \<Rightarrow> string" where
  "padStart n s = replicate (n - length s) CHR ''0'' @ s"

text \<open>
  \<^verbatim>\<open>toISOString().split('T')[0]\<close>: the date part of the ISO text, which is the date in UTC.
  Years from 0 to 9999 have four digits, the others a sign and six digits.
\<close>

definition isoYear :: "int \<Rightarrow> string" where
  "isoYear y = (if 0 \<le> y \<and> y \<le> 9999 then padStart 4 (digits y)
                else (if y < 0 then ''-'' else ''+'') @ padStart 6 (digits \<bar>y\<bar>))"

definition toISODate :: "Date \<Rightarrow> string" where
  "toISODate t = isoYear (YearOfDay (Day t)) @ ''-''
                 @ padStart 2 (digits (MonthOfDay (Day t) + 1)) @ ''-''
                 @ padStart 2 (digits (DateOfDay (Day t)))"

text \<open>\<^verbatim>\<open>toISOString()\<close>: date and time of day in UTC.\<close>

definition HourFromTime :: "int \<Rightarrow> int" where "HourFromTime t = TimeWithinDay t div 3600000"

definition MinFromTime :: "int \<Rightarrow> int" where "MinFromTime t = (TimeWithinDay t div 60000) mod 60"

definition SecFromTime :: "int \<Rightarrow> int" where "SecFromTime t = (TimeWithinDay t div 1000) mod 60"

definition msFromTime :: "int \<Rightarrow> int" where "msFromTime t = TimeWithinDay t mod 1000"

definition toISOString :: "Date \<Rightarrow> string" where
  "toISOString t = toISODate t @ ''T''
                   @ padStart 2 (digits (HourFromTime t)) @ '':''
                   @ padStart 2 (digits (MinFromTime t)) @ '':''
                   @ padStart 2 (digits (SecFromTime t)) @ ''.''
                   @ padStart 3 (digits (msFromTime t)) @ ''Z''"

text \<open>
  \<^verbatim>\<open>new Date(text)\<close> for a text of the date-only form \<^verbatim>\<open>YYYY-MM-DD\<close>, which is what
  an \<^verbatim>\<open>input\<close> of type \<^verbatim>\<open>date\<close> holds: the standard reads it as midnight of that day in
  UTC, not in local time. \<open>None\<close> is the invalid date, which the empty text gives; the
  other date forms are not modelled and a day beyond the end of its month, on which
  engines differ, is taken as invalid.
\<close>

definition digitValue :: "char \<Rightarrow> int option" where
  "digitValue c = map_of (zip ''0123456789'' [0, 1, 2, 3, 4, 5, 6, 7, 8, 9]) c"

fun parseDigits :: "int \<Rightarrow> string \<Rightarrow> int option" where
  "parseDigits n [] = Some n"
| "parseDigits n (c # cs) =
     (case digitValue c of None \<Rightarrow> None | Some d \<Rightarrow> parseDigits (10 * n + d) cs)"

definition parseDateOnly :: "string \<Rightarrow> Date option" where
  "parseDateOnly s =
     (if length s = 10 \<and> s ! 4 = CHR ''-'' \<and> s ! 7 = CHR ''-'' then
        (case parseDigits 0 (take 4 s) of
           None \<Rightarrow> None
         | Some y \<Rightarrow>
             (case parseDigits 0 (take 2 (drop 5 s)) of
                None \<Rightarrow> None
              | Some m \<Rightarrow>
                  (case parseDigits 0 (drop 8 s) of
                     None \<Rightarrow> None
                   | Some d \<Rightarrow>
                       if 1 \<le> m \<and> m \<le> 12 \<and> 1 \<le> d \<and> DateOfDay (MakeDay y (m - 1) d) = d
                       then Some (MakeDate (MakeDay y (m - 1) d) (MakeTime 0 0 0 0))
                       else None)))
      else None)"

subsection \<open>The RSVP deadline\<close>

text \<open>
  \<^verbatim>\<open>getThursdayBefore\<close>: midnight of the start day, back by \<open>(getDay + 7 - 4) % 7\<close> days, by
  7 when that is 0, then 22:00 of the day reached, all in local time.
\<close>

definition daysToGoBack :: "int \<Rightarrow> int" where
  "daysToGoBack dayOfWeek =
     (if (dayOfWeek + 7 - 4) mod 7 = 0 then 7 else (dayOfWeek + 7 - 4) mod 7)"

definition getThursdayBefore :: "int \<Rightarrow> Date \<Rightarrow> Date" where
  "getThursdayBefore tza start =
     (let date0 = setHours tza start 0 0 0 0;
          date1 = setDate tza date0 (getDate tza date0 - daysToGoBack (getDay tza date0))
      in setHours tza date1 22 0 0 0)"

section \<open>The slot generator\<close>

definition SAUNA_LOCATIONS :: "string list" where
  "SAUNA_LOCATIONS = [''Panoramabad Freudenstadt'', ''Albthermen Bad Urach'',
                      ''Saunawelt H'' @ [CHR 0xF6] @ ''chenschwand'']"

text \<open>
  \<^verbatim>\<open>LOCATION_SAUNAS\<close> is a record with the three locations as keys; the generator looks
  up these three keys only.
\<close>

definition LOCATION_SAUNAS :: "string \<Rightarrow> string list" where
  "LOCATION_SAUNAS loc =
     (if loc = SAUNA_LOCATIONS ! 0
      then [''80'' @ [CHR 0xB0] @ '' Kelo Sauna'', ''100'' @ [CHR 0xB0] @ '' Blockhaus Sauna'']
      else if loc = SAUNA_LOCATIONS ! 1 then [''Mineraltherme-Sauna'']
      else if loc = SAUNA_LOCATIONS ! 2
      then [''Natur-Sauna'', ''Schwarzwald-H'' @ [CHR 0xFC] @ ''tte'']
      else [])"

text \<open>\<^verbatim>\<open>for (let hour = lo; hour <= hi; hour++) times.push(`${hour}` + suffix)\<close>\<close>

definition hourTimes :: "int \<Rightarrow> int \<Rightarrow> string \<Rightarrow> string list" where
  "hourTimes lo hi suffix = map (\<lambda>hour. numberToString hour @ suffix) [lo..hi]"

definition newSlot :: "string \<Rightarrow> string \<Rightarrow> string \<Rightarrow> string \<Rightarrow> Aufguss" where
  "newSlot loc sn dateStr tm =
     \<lparr>aufguss_id = loc @ ''-'' @ sn @ ''-'' @ dateStr @ ''-'' @ tm,
      location = loc, sauna = sn, date = dateStr, time = tm,
      aufgussmeisterId = None, aufgussmeisterName = None, aufguss_type = None\<rparr>"

text \<open>The two nested \<^verbatim>\<open>forEach\<close> loops that push one slot per sauna and time.\<close>

definition pushSlots :: "string \<Rightarrow> string \<Rightarrow> string list \<Rightarrow> Aufguss list" where
  "pushSlots loc dateStr tms =
     concat (map (\<lambda>sn. map (\<lambda>tm. newSlot loc sn dateStr tm) tms) (LOCATION_SAUNAS loc))"

definition currentDate :: "int \<Rightarrow> Date \<Rightarrow> int \<Rightarrow> Date" where
  "currentDate tza today day = setDate tza today (getDate tza today + day)"

definition fdsTimes :: "int \<Rightarrow> string list" where
  "fdsTimes dayOfWeek =
     (if dayOfWeek \<ge> 2 \<and> dayOfWeek \<le> 4 then hourTimes 14 20 '':00''
      else if dayOfWeek \<ge> 5 \<or> dayOfWeek = 0 then hourTimes 11 20 '':00''
      else [])"

definition hoechenschwandClosureDate :: "int \<Rightarrow> Date \<Rightarrow> Date" where
  "hoechenschwandClosureDate tza cd = newDate tza (getFullYear tza cd) 7 31"

definition hswSlots :: "int \<Rightarrow> Date \<Rightarrow> Aufguss list" where
  "hswSlots tza cd =
     (if cd > hoechenschwandClosureDate tza cd
      then pushSlots (SAUNA_LOCATIONS ! 2) (toISODate cd) (hourTimes 10 20 '':00'')
      else [])"

text \<open>One turn of the loop over \<open>day\<close>: the slots pushed for that day.\<close>

definition dayAufguesse :: "int \<Rightarrow> Date \<Rightarrow> int \<Rightarrow> Aufguss list" where
  "dayAufguesse tza today day =
     pushSlots (SAUNA_LOCATIONS ! 0) (toISODate (currentDate tza today day))
               (fdsTimes (getDay tza (currentDate tza today day)))
     @ pushSlots (SAUNA_LOCATIONS ! 1) (toISODate (currentDate tza today day))
                 (hourTimes 10 20 '':30'')
     @ hswSlots tza (currentDate tza today day)"

definition testAufgussPast :: "Date \<Rightarrow> Aufguss" where
  "testAufgussPast now =
     \<lparr>aufguss_id = ''test-aufguss-past'',
      location = SAUNA_LOCATIONS ! 0,
      sauna = LOCATION_SAUNAS (SAUNA_LOCATIONS ! 0) ! 0,
      date = toISODate (now - 15 * 24 * 60 * 60 * 1000),
      time = ''18:00'',
      aufgussmeisterId = Some 2,
      aufgussmeisterName = Some ''Max Mustermann'',
      aufguss_type = Some ''Test Aufguss''\<rparr>"

text \<open>
  \<^verbatim>\<open>generateInitialAufguesse\<close> reads the clock twice: \<open>today\<close> is \<^verbatim>\<open>new Date()\<close> at the
  start, \<open>now\<close> is \<^verbatim>\<open>Date.now()\<close> when the last slot is built.
\<close>

definition generateInitialAufguesse :: "int \<Rightarrow> Date \<Rightarrow> Date \<Rightarrow> Aufguss list" where
  "generateInitialAufguesse tza today now =
     concat (map (dayAufguesse tza today) [0..29]) @ [testAufgussPast now]"

text \<open>The slots of a list at one location and date.\<close>

definition slotsAt :: "string \<Rightarrow> string \<Rightarrow> Aufguss list \<Rightarrow> Aufguss list" where
  "slotsAt loc dateStr xs = filter (\<lambda>a. location a = loc \<and> date a = dateStr) xs"

section \<open>Persistence\<close>

text \<open>
  A value as \<^verbatim>\<open>JSON.parse\<close> gives it, together with \<^verbatim>\<open>undefined\<close>, which reading a
  missing property gives. The type of numbers is left open. \<^verbatim>\<open>JSON.parse\<close> is the
  platform's parser and an argument of the model; it throws a \<^verbatim>\<open>SyntaxError\<close> on a text
  that is no JSON. \<^verbatim>\<open>localStorage.getItem\<close> is a partial map from keys to texts (a
  storage that refuses access is not modelled). What \<^verbatim>\<open>console.error\<close> prints is left
  out.
\<close>

datatype js_error = SyntaxError | TypeError | RangeError

datatype 'n jsval =
    JUndefined
  | JNull
  | JBool bool
  | JNum 'n
  | JStr string
  | JArr "'n jsval list"
  | JObj "(string \<times> 'n jsval) list"

text \<open>\<^verbatim>\<open>try { body } catch (e) { handler }\<close> and sequencing of steps that may throw.\<close>

definition tryCatch :: "(js_error + 'a) \<Rightarrow> (js_error \<Rightarrow> js_error + 'a) \<Rightarrow> js_error + 'a" where
  "tryCatch body handler = (case body of Inl e \<Rightarrow> handler e | Inr v \<Rightarrow> Inr v)"

definition bindE :: "(js_error + 'a) \<Rightarrow> ('a \<Rightarrow> js_error + 'b) \<Rightarrow> js_error + 'b" where
  "bindE m f = (case m of Inl e \<Rightarrow> Inl e | Inr v \<Rightarrow> f v)"

fun mapE :: "('a \<Rightarrow> js_error + 'b) \<Rightarrow> 'a list \<Rightarrow> js_error + 'b list" where
  "mapE f [] = Inr []"
| "mapE f (x # xs) = bindE (f x) (\<lambda>y. bindE (mapE f xs) (\<lambda>ys. Inr (y # ys)))"

type_synonym Storage = "string \<Rightarrow> string option"

text \<open>
  \<^verbatim>\<open>safeJSONParse\<close>: the saved text is parsed when it is truthy (neither null nor empty);
  the \<^verbatim>\<open>catch\<close> returns the fallback.
\<close>

definition safeJSONParse ::
  "(string \<Rightarrow> js_error + 'n jsval) \<Rightarrow> Storage \<Rightarrow> string \<Rightarrow> 'n jsval \<Rightarrow> js_error + 'n jsval" where
  "safeJSONParse JSON_parse localStorage key fallback =
     tryCatch
       (case localStorage key of
          None \<Rightarrow> Inr fallback
        | Some saved \<Rightarrow> if saved \<noteq> '''' then JSON_parse saved else Inr fallback)
       (\<lambda>e. Inr fallback)"

text \<open>
  The contract of \<open>load(key, fallback)\<close> in the words of the specification: the value
  read by key, the fallback on a missing (or empty) key or a parse failure.
\<close>

definition load_spec ::
  "(string \<Rightarrow> js_error + 'n jsval) \<Rightarrow> Storage \<Rightarrow> string \<Rightarrow> 'n jsval \<Rightarrow> 'n jsval" where
  "load_spec JSON_parse localStorage key fallback =
     (case localStorage key of
        None \<Rightarrow> fallback
      | Some saved \<Rightarrow>
          (if saved = '''' then fallback
           else case JSON_parse saved of Inl e \<Rightarrow> fallback | Inr v \<Rightarrow> v))"

text \<open>
  The migration of \<^verbatim>\<open>loadAllData\<close> maps every user \<open>u\<close> to
  \<^verbatim>\<open>{...u, status: u.status === 'pending_approval' ? 'active' : u.status}\<close>. The spread
  copies the own properties (of an object its fields, of an array or a string its
  indexed elements, of anything else nothing); reading \<^verbatim>\<open>u.status\<close> throws a
  \<^verbatim>\<open>TypeError\<close> on null and undefined and gives undefined where there is no such
  property; writing \<^verbatim>\<open>status\<close> replaces the property in place or appends it. Calling
  \<^verbatim>\<open>.map\<close> on a value that is no array throws a \<^verbatim>\<open>TypeError\<close>.
\<close>

definition ownProps :: "'n jsval \<Rightarrow> (string \<times> 'n jsval) list" where
  "ownProps v =
     (case v of
        JObj fs \<Rightarrow> fs
      | JArr xs \<Rightarrow> map (\<lambda>(i, x). (numberToString (int i), x)) (enumerate 0 xs)
      | JStr s \<Rightarrow> map (\<lambda>(i, c). (numberToString (int i), JStr [c])) (enumerate 0 s)
      | _ \<Rightarrow> [])"

definition getProp :: "'n jsval \<Rightarrow> string \<Rightarrow> js_error + 'n jsval" where
  "getProp v k =
     (case v of
        JUndefined \<Rightarrow> Inl TypeError
      | JNull \<Rightarrow> Inl TypeError
      | JObj fs \<Rightarrow> Inr (case map_of fs k of None \<Rightarrow> JUndefined | Some x \<Rightarrow> x)
      | _ \<Rightarrow> Inr JUndefined)"

fun setProp :: "string \<Rightarrow> 'n jsval \<Rightarrow> (string \<times> 'n jsval) list \<Rightarrow> (string \<times> 'n jsval) list" where
  "setProp k v [] = [(k, v)]"
| "setProp k v ((k', v') # fs) = (if k' = k then (k, v) # fs else (k', v') # setProp k v fs)"

definition migrateUser :: "'n jsval \<Rightarrow> js_error + 'n jsval" where
  "migrateUser u =
     bindE (getProp u ''status'') (\<lambda>status.
       Inr (JObj (setProp ''status''
                   (if status = JStr ''pending_approval'' then JStr ''active'' else status)
                   (ownProps u))))"

definition jsMap :: "('n jsval \<Rightarrow> js_error + 'n jsval) \<Rightarrow> 'n jsval \<Rightarrow> js_error + 'n jsval" where
  "jsMap f v = (case v of JArr xs \<Rightarrow> bindE (mapE f xs) (\<lambda>ys. Inr (JArr ys)) | _ \<Rightarrow> Inl TypeError)"

text \<open>
  The object \<^verbatim>\<open>loadAllData\<close> returns; the fields carry the prefix \<open>loaded\<close>. The mock
  datasets and the freshly generated slots are passed in as a record of values.
\<close>

record 'n LoadedData =
  loaded_users :: "'n jsval"
  loaded_posts :: "'n jsval"
  loaded_festivals :: "'n jsval"
  loaded_aufguesse :: "'n jsval"
  loaded_awards :: "'n jsval"
  loaded_aufgussTypes :: "'n jsval"
  loaded_availableQuals :: "'n jsval"
  loaded_registrationCode :: string
  loaded_selectedFestivalId :: "string option"
  loaded_persistedBackgrounds :: "'n jsval"

record 'n Mocks =
  MOCK_USERS :: "'n jsval"
  MOCK_POSTS :: "'n jsval"
  MOCK_FESTIVALS :: "'n jsval"
  generatedAufguesse :: "'n jsval"
  MOCK_AWARDS :: "'n jsval"
  DEFAULT_AUFGUSS_TYPES :: "'n jsval"
  DEFAULT_QUALIFICATIONS :: "'n jsval"

text \<open>\<^verbatim>\<open>localStorage.getItem(key) || other\<close>\<close>

definition getItemOr :: "Storage \<Rightarrow> string \<Rightarrow> 'a \<Rightarrow> (string \<Rightarrow> 'a) \<Rightarrow> 'a" where
  "getItemOr localStorage key other f =
     (case localStorage key of
        None \<Rightarrow> other
      | Some s \<Rightarrow> if s = '''' then other else f s)"

text \<open>The object returned by the \<^verbatim>\<open>catch\<close> branch of \<^verbatim>\<open>loadAllData\<close>.\<close>

definition resetData :: "'n Mocks \<Rightarrow> 'n LoadedData" where
  "resetData mocks =
     \<lparr>loaded_users = MOCK_USERS mocks,
      loaded_posts = MOCK_POSTS mocks,
      loaded_festivals = MOCK_FESTIVALS mocks,
      loaded_aufguesse = generatedAufguesse mocks,
      loaded_awards = MOCK_AWARDS mocks,
      loaded_aufgussTypes = DEFAULT_AUFGUSS_TYPES mocks,
      loaded_availableQuals = DEFAULT_QUALIFICATIONS mocks,
      loaded_registrationCode = ''123456'',
      loaded_selectedFestivalId = None,
      loaded_persistedBackgrounds = JObj []\<rparr>"

definition loadAllData ::
  "(string \<Rightarrow> js_error + 'n jsval) \<Rightarrow> Storage \<Rightarrow> 'n Mocks \<Rightarrow> js_error + 'n LoadedData" where
  "loadAllData JSON_parse localStorage mocks =
     tryCatch
       (bindE (safeJSONParse JSON_parse localStorage ''users'' (MOCK_USERS mocks)) (\<lambda>initialUsers.
        bindE (jsMap migrateUser initialUsers) (\<lambda>us.
        bindE (safeJSONParse JSON_parse localStorage ''posts'' (MOCK_POSTS mocks)) (\<lambda>ps.
        bindE (safeJSONParse JSON_parse localStorage ''festivals'' (MOCK_FESTIVALS mocks)) (\<lambda>fs.
        bindE (safeJSONParse JSON_parse localStorage ''aufguesse'' (generatedAufguesse mocks)) (\<lambda>as.
        bindE (safeJSONParse JSON_parse localStorage ''awards'' (MOCK_AWARDS mocks)) (\<lambda>aws.
        bindE (safeJSONParse JSON_parse localStorage ''aufgussTypes'' (DEFAULT_AUFGUSS_TYPES mocks)) (\<lambda>ts.
        bindE (safeJSONParse JSON_parse localStorage ''availableQuals'' (DEFAULT_QUALIFICATIONS mocks)) (\<lambda>qs.
        bindE (safeJSONParse JSON_parse localStorage ''persistedBackgrounds'' (JObj [])) (\<lambda>bgs.
          Inr \<lparr>loaded_users = us,
               loaded_posts = ps,
               loaded_festivals = fs,
               loaded_aufguesse = as,
               loaded_awards = aws,
               loaded_aufgussTypes = ts,
               loaded_availableQuals = qs,
               loaded_registrationCode =
                 getItemOr localStorage ''registrationCode'' ''123456'' (\<lambda>s. s),
               loaded_selectedFestivalId =
                 getItemOr localStorage ''selectedFestivalId'' None Some,
               loaded_persistedBackgrounds = bgs\<rparr>))))))))))
       (\<lambda>error. Inr (resetData mocks))"

text \<open>A users value the migration can map: an array with no null or undefined entry.\<close>

definition mappableUsers :: "'n jsval \<Rightarrow> bool" where
  "mappableUsers v =
     (case v of JArr xs \<Rightarrow> list_all (\<lambda>u. u \<noteq> JNull \<and> u \<noteq> JUndefined) xs | _ \<Rightarrow> False)"

section \<open>Creating a festival\<close>

text \<open>
  The argument of \<^verbatim>\<open>handleCreateFestival\<close>: a festival without \<^verbatim>\<open>id\<close>, \<^verbatim>\<open>participants\<close>,
  \<^verbatim>\<open>tasks\<close> and \<^verbatim>\<open>rsvpDeadline\<close>; the fields carry the prefix \<open>data\<close>.
\<close>

record FestivalData =
  data_name :: string
  data_startDate :: string
  data_endDate :: string
  data_location :: string
  data_numberOfSaunas :: int
  data_aufgussTimes :: "string list"

text \<open>The participant record that a new festival holds for a user.\<close>

definition pendingParticipant :: "User \<Rightarrow> FestivalParticipant" where
  "pendingParticipant u =
     \<lparr>userId = user_id u, participant_status = pending, aufgussAvailability = [],
      participant_workHours = 0, hoursLogged = False, aufgussProposals = []\<rparr>"

text \<open>
  \<^verbatim>\<open>handleCreateFestival\<close>. \<open>Date_parse\<close> is \<^verbatim>\<open>new Date(festivalData.startDate)\<close> and
  \<open>now\<close> is \<^verbatim>\<open>Date.now()\<close>. On an invalid date \<^verbatim>\<open>toISOString\<close> throws a \<^verbatim>\<open>RangeError\<close>
  while the new festival is built, before any setter is called.
\<close>

definition handleCreateFestival ::
  "(string \<Rightarrow> Date option) \<Rightarrow> int \<Rightarrow> Date \<Rightarrow> AppState \<Rightarrow> FestivalData \<Rightarrow> js_error + AppState" where
  "handleCreateFestival Date_parse tza now st festivalData =
     (case Date_parse (data_startDate festivalData) of
        None \<Rightarrow> Inl RangeError
      | Some start \<Rightarrow>
          (let newFestival =
                 \<lparr>festival_id = ''fest-'' @ numberToString now,
                  festival_name = data_name festivalData,
                  startDate = data_startDate festivalData,
                  endDate = data_endDate festivalData,
                  rsvpDeadline = toISOString (getThursdayBefore tza start),
                  festival_location = data_location festivalData,
                  numberOfSaunas = data_numberOfSaunas festivalData,
                  aufgussTimes = data_aufgussTimes festivalData,
                  tasks = [],
                  participants = map pendingParticipant (users st)\<rparr>;
               newFestivals = festivals st @ [newFestival]
           in Inr (st\<lparr>festivals := newFestivals,
                       selectedFestivalId := festival_id newFestival\<rparr>)))"

text \<open>
  The two dates of the entry of \<^verbatim>\<open>MOCK_FESTIVALS\<close>, computed when the module is loaded at
  the moment \<open>now\<close>: the start date is the UTC date of the moment ten days later, the
  deadline is computed from that moment.
\<close>

definition upcomingFestivalDate :: "int \<Rightarrow> Date \<Rightarrow> Date" where
  "upcomingFestivalDate tza now = setDate tza now (getDate tza now + 10)"

definition mockFestivalStartDate :: "int \<Rightarrow> Date \<Rightarrow> string" where
  "mockFestivalStartDate tza now = toISODate (upcomingFestivalDate tza now)"

definition mockFestivalRsvpDeadline :: "int \<Rightarrow> Date \<Rightarrow> string" where
  "mockFestivalRsvpDeadline tza now = toISOString (getThursdayBefore tza (upcomingFestivalDate tza now))"

section \<open>Sample data\<close>

text \<open>
  Concrete values on which the theorems below are instantiated. The two users are the
  second and third entry of \<^verbatim>\<open>MOCK_USERS\<close> (a character outside Latin-1 is given by its
  UTF-8 bytes), the poll is the third entry of \<^verbatim>\<open>MOCK_POSTS\<close>, and the slots have the
  shape the generator gives them. \<open>parseFixture\<close> knows the date text of one slot, read
  in a zone two hours east of UTC.
\<close>

definition user2 :: User where
  "user2 = \<lparr>user_id = 2, user_name = ''Max Mustermann'', nickname = None,
     email = ''max@example.com'', phone = None,
     primarySauna = ''Saunawelt H'' @ [CHR 0xF6] @ ''chenschwand'',
     avatarUrl = [CHR 0xF0, CHR 0x9F, CHR 0x94, CHR 0xA5],
     qualifications = [''Saunameister Basic''], awards = [''aufguss_bronze'', ''hitze_titan''],
     aufgussCount = 12, user_workHours = 25, isAdmin = False, permissions = [],
     user_status = ''active'', shortNoticeCancellations = 1, username = Some ''max'',
     showInMemberList = True, lastProfileUpdate = Some 0, lastAufgussShareTimestamp = Some 0,
     motto = Some (''Schwitzen f'' @ [CHR 0xFC] @ ''r den Sieg.'')\<rparr>"

definition user3 :: User where
  "user3 = \<lparr>user_id = 3, user_name = ''Anna Schmidt'', nickname = None,
     email = ''anna@example.com'', phone = None,
     primarySauna = ''Albthermen Bad Urach'',
     avatarUrl = ''https://i.pravatar.cc/150?u=3'',
     qualifications = [], awards = [],
     aufgussCount = 0, user_workHours = 0, isAdmin = False, permissions = [],
     user_status = ''active'', shortNoticeCancellations = 0, username = Some ''anna'',
     showInMemberList = True, lastProfileUpdate = Some 0, lastAufgussShareTimestamp = Some 0,
     motto = Some ''''\<rparr>"

definition takenSlot :: Aufguss where
  "takenSlot = \<lparr>aufguss_id = ''Albthermen Bad Urach-Mineraltherme-Sauna-2025-09-03-10:30'',
     location = ''Albthermen Bad Urach'', sauna = ''Mineraltherme-Sauna'',
     date = ''2025-09-03'', time = ''10:30'',
     aufgussmeisterId = Some 2, aufgussmeisterName = Some ''Max Mustermann'',
     aufguss_type = Some ''Haferpflaumen Schnapsaufguss''\<rparr>"

definition freeSlot :: Aufguss where
  "freeSlot = \<lparr>aufguss_id = ''Albthermen Bad Urach-Mineraltherme-Sauna-2025-09-03-11:30'',
     location = ''Albthermen Bad Urach'', sauna = ''Mineraltherme-Sauna'',
     date = ''2025-09-03'', time = ''11:30'',
     aufgussmeisterId = None, aufgussmeisterName = None, aufguss_type = None\<rparr>"

definition festivalNamed :: "string \<Rightarrow> Festival" where
  "festivalNamed i = \<lparr>festival_id = i, festival_name = ''Sommer-Saunafest'',
     startDate = ''2025-09-13'', endDate = ''2025-09-15'',
     rsvpDeadline = ''2025-09-11T20:00:00.000Z'',
     festival_location = ''Panoramabad Freudenstadt'', numberOfSaunas = 2,
     aufgussTimes = [''10:00'', ''11:00''], tasks = [], participants = []\<rparr>"

definition pollPost :: Post where
  "pollPost = \<lparr>post_id = 3, post_userId = 1, post_type = poll,
     content = ''Welcher neue Aufguss-Duft soll als n'' @ [CHR 0xE4] @ ''chstes ins Programm?'',
     pollData = Some \<lparr>question =
         ''Welcher neue Aufguss-Duft soll als n'' @ [CHR 0xE4] @ ''chstes ins Programm?'',
       options = [\<lparr>option_text = ''Zirbe-Latschenkiefer'', votes = [2]\<rparr>,
                  \<lparr>option_text = ''Orange-Ingwer'', votes = []\<rparr>,
                  \<lparr>option_text = ''Sandelholz-Vanille'', votes = [1]\<rparr>]\<rparr>,
     imageUrl = None, embedUrl = None, timestamp = ''Vor 3 Tagen'', likes = [2],
     comments = []\<rparr>"

definition stateFixture :: AppState where
  "stateFixture = \<lparr>users = [user2, user3], posts = [pollPost],
     festivals = [festivalNamed ''sommerfest-2024'', festivalNamed ''fest-1756888200000''],
     aufguesse = [takenSlot, freeSlot],
     availableQuals = [''Saunameister Basic'', ''Saunameister Pro'', ''Eventmanagement'', ''Ersthelfer''],
     selectedFestivalId = ''sommerfest-2024'', currentUser = Some user3\<rparr>"

definition parseFixture :: "string \<Rightarrow> int option" where
  "parseFixture s = (if s = ''2025-09-03T10:30'' then Some 1756888200000 else None)"

text \<open>
  For the bulk load: a parser that knows the two JSON texts \<^verbatim>\<open>null\<close> and \<^verbatim>\<open>[]\<close> and
  rejects every other text (it agrees with \<^verbatim>\<open>JSON.parse\<close> on these two and on the text
  \<^verbatim>\<open>[{id:\<close>, which is no JSON), small mock datasets, and two storages.
\<close>

definition JSON_parse_sample :: "string \<Rightarrow> js_error + int jsval" where
  "JSON_parse_sample s =
     (if s = ''null'' then Inr JNull else if s = ''[]'' then Inr (JArr []) else Inl SyntaxError)"

definition mocksFixture :: "int Mocks" where
  "mocksFixture =
     \<lparr>MOCK_USERS = JArr [JObj [(''id'', JNum 3), (''name'', JStr ''Anna Schmidt''),
                              (''status'', JStr ''active'')]],
      MOCK_POSTS = JArr [JObj [(''id'', JNum 2), (''userId'', JNum 1)]],
      MOCK_FESTIVALS = JArr [JObj [(''id'', JStr ''sommerfest-2024'')]],
      generatedAufguesse = JArr [JObj [(''id'', JStr ''test-aufguss-past'')]],
      MOCK_AWARDS = JArr [JObj [(''id'', JStr ''aufguss_bronze'')]],
      DEFAULT_AUFGUSS_TYPES = JArr [JStr ''Haferpflaumen Schnapsaufguss''],
      DEFAULT_QUALIFICATIONS = JArr [JStr ''Ersthelfer'']\<rparr>"

definition storageUsersNull :: Storage where
  "storageUsersNull key =
     (if key = ''users'' then Some ''null'' else if key = ''posts'' then Some ''[]'' else None)"

definition storagePostsBroken :: Storage where
  "storagePostsBroken key =
     (if key = ''posts'' then Some ''[{id:'' else if key = ''festivals'' then Some ''[]''
      else None)"

definition festivalDataFixture :: FestivalData where
  "festivalDataFixture =
     \<lparr>data_name = ''Herbstfest'', data_startDate = ''2025-09-12'', data_endDate = ''2025-09-14'',
      data_location = ''Panoramabad Freudenstadt'', data_numberOfSaunas = 2,
      data_aufgussTimes = []\<rparr>"

section \<open>Properties\<close>

lemmas fixture_defs = user2_def user3_def takenSlot_def freeSlot_def festivalNamed_def
  pollPost_def stateFixture_def parseFixture_def

subsection \<open>Qualifications\<close>

text \<open>
  C10. Deleting an available qualification cascades to the users: the name is removed
  from \<open>availableQuals\<close> (the other names stay, in their order), and every user keeps
  all fields except \<open>qualifications\<close>, from which the name is removed; nothing else of
  the state changes.
\<close>

theorem handleDeleteQual_cascades: 
  "availableQuals (handleDeleteQual st q) = filter (\<lambda>x. x \<noteq> q) (availableQuals st)
   \<and> q \<notin> set (availableQuals (handleDeleteQual st q))
   \<and> length (users (handleDeleteQual st q)) = length (users st)
   \<and> (\<forall>i < length (users st).
        users (handleDeleteQual st q) ! i =
          (users st ! i)\<lparr>qualifications := filter (\<lambda>x. x \<noteq> q) (qualifications (users st ! i))\<rparr>
        \<and> q \<notin> set (qualifications (users (handleDeleteQual st q) ! i)))
   \<and> handleDeleteQual st q = st\<lparr>availableQuals := availableQuals (handleDeleteQual st q),
                                users := users (handleDeleteQual st q)\<rparr>"
  by (simp add: handleDeleteQual_def Let_def)


theorem handleDeleteQual_cascades_witness:
  "availableQuals (handleDeleteQual stateFixture ''Saunameister Basic'')
     = [''Saunameister Pro'', ''Eventmanagement'', ''Ersthelfer'']
   \<and> map qualifications (users (handleDeleteQual stateFixture ''Saunameister Basic'')) = [[], []]
   \<and> map qualifications (users stateFixture) = [[''Saunameister Basic''], []]"
  using handleDeleteQual_cascades [of stateFixture "''Saunameister Basic''"]
  by (simp add: handleDeleteQual_def Let_def fixture_defs)

subsection \<open>Likes\<close>

lemma like_nth:
  "i < length (posts st) \<Longrightarrow>
   posts (handleLikePost cu st postId) ! i =
     (let p = posts st ! i in
      if post_id p = postId then
        p\<lparr>likes := (if user_id cu \<in> set (likes p) then filter (\<lambda>i. i \<noteq> user_id cu) (likes p)
                     else likes p @ [user_id cu])\<rparr>
      else p)"
  by (simp add: handleLikePost_def Let_def)

text \<open>
  C6. Toggle like is a strict toggle. After one call, on every post with the id the
  acting user is in the like list exactly if they were not before, the other users'
  likes are as before and no other field changes; after two calls the like set is the
  original one. A post with another id is not changed by either call.
\<close>

theorem handleLikePost_toggle:
  "length (posts (handleLikePost cu st postId)) = length (posts st)
   \<and> (\<forall>i < length (posts st).
        (let p = posts st ! i;
             p1 = posts (handleLikePost cu st postId) ! i;
             p2 = posts (handleLikePost cu (handleLikePost cu st postId) postId) ! i
         in (post_id p \<noteq> postId \<longrightarrow> p1 = p \<and> p2 = p)
          \<and> (post_id p = postId \<longrightarrow>
                (user_id cu \<in> set (likes p1) \<longleftrightarrow> user_id cu \<notin> set (likes p))
              \<and> set (likes p1) - {user_id cu} = set (likes p) - {user_id cu}
              \<and> p1 = p\<lparr>likes := likes p1\<rparr>
              \<and> set (likes p2) = set (likes p)
              \<and> p2 = p\<lparr>likes := likes p2\<rparr>)))"
proof -
  have len: "length (posts (handleLikePost cu st postId)) = length (posts st)"
    by (simp add: handleLikePost_def Let_def)
  show ?thesis
  proof (intro conjI allI impI)
    show "length (posts (handleLikePost cu st postId)) = length (posts st)" by (rule len)
  next
    fix i assume i: "i < length (posts st)"
    then have i1: "i < length (posts (handleLikePost cu st postId))" using len by simp
    show "let p = posts st ! i;
             p1 = posts (handleLikePost cu st postId) ! i;
             p2 = posts (handleLikePost cu (handleLikePost cu st postId) postId) ! i
         in (post_id p \<noteq> postId \<longrightarrow> p1 = p \<and> p2 = p)
          \<and> (post_id p = postId \<longrightarrow>
                (user_id cu \<in> set (likes p1) \<longleftrightarrow> user_id cu \<notin> set (likes p))
              \<and> set (likes p1) - {user_id cu} = set (likes p) - {user_id cu}
              \<and> p1 = p\<lparr>likes := likes p1\<rparr>
              \<and> set (likes p2) = set (likes p)
              \<and> p2 = p\<lparr>likes := likes p2\<rparr>)"
      unfolding like_nth[OF i1] like_nth[OF i]
      by (auto simp: Let_def)
  qed
qed

theorem handleLikePost_toggle_witness:
  "likes (posts (handleLikePost user3 stateFixture 3) ! 0) = [2, 3]
   \<and> likes (posts (handleLikePost user3 (handleLikePost user3 stateFixture 3) 3) ! 0) = [2]
   \<and> likes (posts (handleLikePost user3 (handleLikePost user3 stateFixture 4) 4) ! 0) = [2]"
  using handleLikePost_toggle [of user3 stateFixture 3] handleLikePost_toggle [of user3 stateFixture 4]
  by (simp add: handleLikePost_def Let_def fixture_defs)

subsection \<open>Polls\<close>

lemma count_votes_enumerate:
  "sum_list (map (\<lambda>opt. count_list (votes opt) u) (map (voteOption uid oi) (enumerate k os)))
   = sum_list (map (\<lambda>opt. count_list (votes opt) u) os)
     + (if u = uid \<and> int k \<le> oi \<and> oi < int k + int (length os) then 1 else 0)"
proof (induction os arbitrary: k)
  case Nil
  then show ?case by simp
next
  case (Cons a os)
  show ?case
    using Cons.IH[of "Suc k"] by (auto simp: voteOption_def)
qed

lemma count_votes_absent:
  "\<not> list_ex (\<lambda>opt. uid \<in> set (votes opt)) os \<Longrightarrow>
   sum_list (map (\<lambda>opt. count_list (votes opt) uid) os) = 0"
  by (induction os) (auto simp: count_list_0_iff)

lemma totalVotes_vote:
  "totalVotes u (pd\<lparr>options := map (voteOption uid oi) (enumerate 0 (options pd))\<rparr>)
   = totalVotes u pd + (if u = uid \<and> 0 \<le> oi \<and> oi < int (length (options pd)) then 1 else 0)"
  using count_votes_enumerate[of u uid oi 0 "options pd"] by (simp add: totalVotes_def)

lemma totalVotes_absent:
  "\<not> list_ex (\<lambda>opt. uid \<in> set (votes opt)) (options pd) \<Longrightarrow> totalVotes uid pd = 0"
  using count_votes_absent[of uid "options pd"] by (simp add: totalVotes_def)

lemma votePost_bound:
  assumes "case pollData p of None \<Rightarrow> True | Some pd \<Rightarrow> totalVotes u pd \<le> 1"
  shows "case pollData (votePost uid postId oi p) of None \<Rightarrow> True | Some pd \<Rightarrow> totalVotes u pd \<le> 1"
proof (cases "pollData p")
  case None
  then show ?thesis by (simp add: votePost_def)
next
  case (Some pd)
  show ?thesis
  proof (cases "post_id p = postId \<and> post_type p = poll \<and> \<not> list_ex (\<lambda>opt. uid \<in> set (votes opt)) (options pd)")
    case False
    then have "votePost uid postId oi p = p" using Some by (auto simp: votePost_def)
    then show ?thesis using assms by simp
  next
    case True
    then have "pollData (votePost uid postId oi p)
                 = Some (pd\<lparr>options := map (voteOption uid oi) (enumerate 0 (options pd))\<rparr>)"
      using Some by (simp add: votePost_def Let_def)
    moreover have "totalVotes u (pd\<lparr>options := map (voteOption uid oi) (enumerate 0 (options pd))\<rparr>) \<le> 1"
    proof (cases "u = uid")
      case True
      have "\<not> list_ex (\<lambda>opt. uid \<in> set (votes opt)) (options pd)"
        using \<open>post_id p = postId \<and> post_type p = poll \<and> \<not> list_ex (\<lambda>opt. uid \<in> set (votes opt)) (options pd)\<close>
        by simp
      then have "totalVotes uid pd = 0"
        by (rule totalVotes_absent)
      then show ?thesis using True by (simp add: totalVotes_vote)
    next
      case False
      then show ?thesis using assms Some by (simp add: totalVotes_vote)
    qed
    ultimately show ?thesis by simp
  qed
qed

lemma onVote_bound: "votesWithinBound u (posts st) \<Longrightarrow> votesWithinBound u (posts (onVote cu st postId oi))"
  by (simp add: votesWithinBound_def onVote_def list_all_iff votePost_bound)

lemma runVotes_bound: "votesWithinBound u (posts st) \<Longrightarrow> votesWithinBound u (posts (runVotes st vs))"
proof (induction vs arbitrary: st)
  case Nil
  then show ?case by simp
next
  case (Cons v vs)
  obtain cu postId oi where v: "v = (cu, postId, oi)" by (cases v)
  show ?case unfolding v using Cons.IH[OF onVote_bound[OF Cons.prems]] by simp
qed

lemma voteOption_nth:
  "j < length os \<Longrightarrow> map (voteOption uid oi) (enumerate 0 os) ! j =
     (if int j = oi then (os ! j)\<lparr>votes := votes (os ! j) @ [uid]\<rparr> else os ! j)"
  by (simp add: voteOption_def nth_enumerate_eq)

text \<open>
  C4. Vote on poll. A post that is no poll with the given id is unchanged. On a poll
  with the id: if the acting user is in the vote list of some option the post is
  unchanged; otherwise only the vote lists change, and only that of the option at
  \<open>optionIndex\<close>, to which the user's id is appended. Consequently, for every user, if
  no poll counts more than one vote of that user before a run of votes (by any users,
  on any posts), none does after it.
\<close>

theorem onVote_one_vote_per_user:
  "length (posts (onVote cu st postId oi)) = length (posts st)
   \<and> (\<forall>i < length (posts st).
        (let p = posts st ! i; p' = posts (onVote cu st postId oi) ! i in
         case pollData p of
           None \<Rightarrow> p' = p
         | Some pd \<Rightarrow>
             if post_id p = postId \<and> post_type p = poll then
               if list_ex (\<lambda>opt. user_id cu \<in> set (votes opt)) (options pd) then p' = p
               else (\<exists>pd'. p' = p\<lparr>pollData := Some pd'\<rparr>
                      \<and> pd' = pd\<lparr>options := options pd'\<rparr>
                      \<and> length (options pd') = length (options pd)
                      \<and> (\<forall>j < length (options pd).
                           options pd' ! j =
                             (if int j = oi
                              then (options pd ! j)\<lparr>votes := votes (options pd ! j) @ [user_id cu]\<rparr>
                              else options pd ! j)))
             else p' = p))
   \<and> (votesWithinBound uid (posts st) \<longrightarrow> votesWithinBound uid (posts (runVotes st vs)))"
proof (intro conjI allI impI)
  show "length (posts (onVote cu st postId oi)) = length (posts st)"
    by (simp add: onVote_def)
next
  fix i assume i: "i < length (posts st)"
  have nth: "posts (onVote cu st postId oi) ! i = votePost (user_id cu) postId oi (posts st ! i)"
    using i by (simp add: onVote_def)
  show "let p = posts st ! i; p' = posts (onVote cu st postId oi) ! i in
         case pollData p of
           None \<Rightarrow> p' = p
         | Some pd \<Rightarrow>
             if post_id p = postId \<and> post_type p = poll then
               if list_ex (\<lambda>opt. user_id cu \<in> set (votes opt)) (options pd) then p' = p
               else (\<exists>pd'. p' = p\<lparr>pollData := Some pd'\<rparr>
                      \<and> pd' = pd\<lparr>options := options pd'\<rparr>
                      \<and> length (options pd') = length (options pd)
                      \<and> (\<forall>j < length (options pd).
                           options pd' ! j =
                             (if int j = oi
                              then (options pd ! j)\<lparr>votes := votes (options pd ! j) @ [user_id cu]\<rparr>
                              else options pd ! j)))
             else p' = p"
  proof (cases "pollData (posts st ! i)")
    case None
    then show ?thesis unfolding nth Let_def by (simp add: votePost_def)
  next
    case (Some pd)
    show ?thesis
    proof (cases "post_id (posts st ! i) = postId \<and> post_type (posts st ! i) = poll
                  \<and> \<not> list_ex (\<lambda>opt. user_id cu \<in> set (votes opt)) (options pd)")
      case False
      then show ?thesis unfolding nth Let_def using Some by (auto simp: votePost_def)
    next
      case True
      let ?pd' = "pd\<lparr>options := map (voteOption (user_id cu) oi) (enumerate 0 (options pd))\<rparr>"
      have v: "votePost (user_id cu) postId oi (posts st ! i) = (posts st ! i)\<lparr>pollData := Some ?pd'\<rparr>"
        using True Some by (simp add: votePost_def Let_def)
      have "(posts st ! i)\<lparr>pollData := Some ?pd'\<rparr> = (posts st ! i)\<lparr>pollData := Some ?pd'\<rparr>
            \<and> ?pd' = pd\<lparr>options := options ?pd'\<rparr>
            \<and> length (options ?pd') = length (options pd)
            \<and> (\<forall>j < length (options pd).
                  options ?pd' ! j =
                    (if int j = oi
                     then (options pd ! j)\<lparr>votes := votes (options pd ! j) @ [user_id cu]\<rparr>
                     else options pd ! j))"
        by (simp add: voteOption_def nth_enumerate_eq)
      then have "\<exists>pd'. (posts st ! i)\<lparr>pollData := Some ?pd'\<rparr> = (posts st ! i)\<lparr>pollData := Some pd'\<rparr>
            \<and> pd' = pd\<lparr>options := options pd'\<rparr>
            \<and> length (options pd') = length (options pd)
            \<and> (\<forall>j < length (options pd).
                  options pd' ! j =
                    (if int j = oi
                     then (options pd ! j)\<lparr>votes := votes (options pd ! j) @ [user_id cu]\<rparr>
                     else options pd ! j))"
        by (rule exI[of _ ?pd'])
      then show ?thesis unfolding nth Let_def v using True Some by simp
    qed
  qed
next
  assume "votesWithinBound uid (posts st)"
  then show "votesWithinBound uid (posts (runVotes st vs))" by (rule runVotes_bound)
qed

theorem onVote_one_vote_per_user_witness:
  "votesWithinBound 3 (posts stateFixture)
   \<and> votesWithinBound 3 (posts (runVotes stateFixture [(user3, 3, 1), (user3, 3, 0), (user2, 3, 2)]))
   \<and> map votes (options (the (pollData (posts (onVote user3 stateFixture 3 1) ! 0)))) = [[2], [3], [1]]
   \<and> posts (onVote user2 stateFixture 3 1) ! 0 = posts stateFixture ! 0"
proof -
  have h: "votesWithinBound 3 (posts stateFixture)"
    by (simp add: votesWithinBound_def totalVotes_def fixture_defs)
  have e: "map votes (options (the (pollData (posts (onVote user3 stateFixture 3 1) ! 0))))
             = [[2], [3], [1]]"
    by (simp add: onVote_def votePost_def voteOption_def Let_def enumerate_eq_zip upt_rec
        fixture_defs)
  have u: "posts (onVote user2 stateFixture 3 1) ! 0 = posts stateFixture ! 0"
    by (simp add: onVote_def votePost_def fixture_defs)
  from onVote_one_vote_per_user
         [of user3 stateFixture 3 1 3 "[(user3, 3, 1), (user3, 3, 0), (user2, 3, 2)]"] h e u
  show ?thesis by blast
qed

subsection \<open>Claiming a slot\<close>

text \<open>
  C1, as the claim states it, fails: the handler does not look at \<open>aufgussmeisterId\<close>.
  Here user 3 claims the slot that user 2 holds; the slot changes owner and the count
  of user 3 goes from 0 to 1.
\<close>

theorem handleClaimAufguss_claimed_counterexample:
  "map aufgussmeisterId (aufguesse stateFixture) = [Some 2, None]
   \<and> map aufgussmeisterId (aufguesse (handleClaimAufguss user3 stateFixture (aufguss_id takenSlot) ''Haferpflaumen Schnapsaufguss'')) = [Some 3, None]
   \<and> map aufgussCount (users stateFixture) = [12, 0]
   \<and> map aufgussCount (users (handleClaimAufguss user3 stateFixture (aufguss_id takenSlot) ''Haferpflaumen Schnapsaufguss'')) = [12, 1]"
  by (simp add: handleClaimAufguss_def Let_def fixture_defs)


text \<open>
  C1, amended. Claim slot does not test whether the slot is claimed (the planner page
  offers the button on free slots only): every slot with the id, claimed or not, gets
  the acting user's id and name and the given type, every other slot is unchanged, and
  the count of every user with the acting user's id goes up by exactly 1, every other
  user being unchanged.
\<close>

theorem handleClaimAufguss_sets_owner:
  "length (aufguesse (handleClaimAufguss cu st aufgussId ty)) = length (aufguesse st)
   \<and> (\<forall>i < length (aufguesse st).
        aufguesse (handleClaimAufguss cu st aufgussId ty) ! i =
          (if aufguss_id (aufguesse st ! i) = aufgussId
           then (aufguesse st ! i)\<lparr>aufgussmeisterId := Some (user_id cu),
                   aufgussmeisterName := Some (user_name cu), aufguss_type := Some ty\<rparr>
           else aufguesse st ! i))
   \<and> length (users (handleClaimAufguss cu st aufgussId ty)) = length (users st)
   \<and> (\<forall>i < length (users st).
        users (handleClaimAufguss cu st aufgussId ty) ! i =
          (if user_id (users st ! i) = user_id cu
           then (users st ! i)\<lparr>aufgussCount := aufgussCount (users st ! i) + 1\<rparr>
           else users st ! i))"
  by (simp add: handleClaimAufguss_def Let_def)

theorem handleClaimAufguss_sets_owner_witness:
  "aufgussmeisterId (aufguesse stateFixture ! 1) = None
   \<and> aufguesse (handleClaimAufguss user3 stateFixture (aufguss_id freeSlot) ''Haferpflaumen Schnapsaufguss'') ! 1
       = freeSlot\<lparr>aufgussmeisterId := Some 3, aufgussmeisterName := Some ''Anna Schmidt'',
                  aufguss_type := Some ''Haferpflaumen Schnapsaufguss''\<rparr>
   \<and> aufguesse (handleClaimAufguss user3 stateFixture (aufguss_id freeSlot) ''Haferpflaumen Schnapsaufguss'') ! 0
       = takenSlot
   \<and> map aufgussCount (users (handleClaimAufguss user3 stateFixture (aufguss_id freeSlot) ''Haferpflaumen Schnapsaufguss''))
       = [12, 1]"
  using handleClaimAufguss_sets_owner
          [of user3 stateFixture "aufguss_id freeSlot" "''Haferpflaumen Schnapsaufguss''"]
  by (simp add: handleClaimAufguss_def Let_def fixture_defs)

subsection \<open>Persistence\<close>

lemma safeJSONParse_eq:
  "safeJSONParse P S key fb = Inr (load_spec P S key fb)"
  by (auto simp: safeJSONParse_def load_spec_def tryCatch_def split: option.splits sum.splits)

lemma loadAllData_ok:
  assumes "jsMap migrateUser (load_spec P S ''users'' (MOCK_USERS mocks)) = Inr us"
  shows "loadAllData P S mocks =
     Inr \<lparr>loaded_users = us,
          loaded_posts = load_spec P S ''posts'' (MOCK_POSTS mocks),
          loaded_festivals = load_spec P S ''festivals'' (MOCK_FESTIVALS mocks),
          loaded_aufguesse = load_spec P S ''aufguesse'' (generatedAufguesse mocks),
          loaded_awards = load_spec P S ''awards'' (MOCK_AWARDS mocks),
          loaded_aufgussTypes = load_spec P S ''aufgussTypes'' (DEFAULT_AUFGUSS_TYPES mocks),
          loaded_availableQuals = load_spec P S ''availableQuals'' (DEFAULT_QUALIFICATIONS mocks),
          loaded_registrationCode = getItemOr S ''registrationCode'' ''123456'' (\<lambda>s. s),
          loaded_selectedFestivalId = getItemOr S ''selectedFestivalId'' None Some,
          loaded_persistedBackgrounds = load_spec P S ''persistedBackgrounds'' (JObj [])\<rparr>"
  using assms by (simp add: loadAllData_def safeJSONParse_eq bindE_def tryCatch_def)

lemma loadAllData_reset:
  assumes "jsMap migrateUser (load_spec P S ''users'' (MOCK_USERS mocks)) = Inl e"
  shows "loadAllData P S mocks = Inr (resetData mocks)"
  using assms by (simp add: loadAllData_def safeJSONParse_eq bindE_def tryCatch_def)


lemma mapE_migrate_ok:
  "list_all (\<lambda>u. u \<noteq> JNull \<and> u \<noteq> JUndefined) xs \<Longrightarrow> \<exists>ys. mapE migrateUser xs = Inr ys"
proof (induction xs)
  case Nil
  then show ?case by simp
next
  case (Cons u xs)
  then obtain ys where ys: "mapE migrateUser xs = Inr ys" by auto
  from Cons.prems have "u \<noteq> JNull" "u \<noteq> JUndefined" by simp_all
  then obtain y where "migrateUser u = Inr y"
    by (cases u) (simp_all add: migrateUser_def getProp_def bindE_def)
  then show ?case using ys by (simp add: bindE_def)
qed

lemma mapE_migrate_fail:
  "\<not> list_all (\<lambda>u. u \<noteq> JNull \<and> u \<noteq> JUndefined) xs \<Longrightarrow> mapE migrateUser xs = Inl TypeError"
proof (induction xs)
  case Nil
  then show ?case by simp
next
  case (Cons u xs)
  show ?case
  proof (cases "u = JNull \<or> u = JUndefined")
    case True
    then show ?thesis by (auto simp: migrateUser_def getProp_def bindE_def)
  next
    case False
    then obtain y where "migrateUser u = Inr y"
      by (cases u) (simp_all add: migrateUser_def getProp_def bindE_def)
    moreover have "mapE migrateUser xs = Inl TypeError" using Cons False by simp
    ultimately show ?thesis by (simp add: bindE_def)
  qed
qed

lemma jsMap_migrate_ok: "mappableUsers v \<Longrightarrow> \<exists>us. jsMap migrateUser v = Inr us"
  using mapE_migrate_ok by (cases v) (fastforce simp: mappableUsers_def jsMap_def bindE_def)+

lemma jsMap_migrate_fail: "\<not> mappableUsers v \<Longrightarrow> jsMap migrateUser v = Inl TypeError"
  by (cases v) (simp_all add: mappableUsers_def jsMap_def bindE_def mapE_migrate_fail)

text \<open>
  C8, as the claim states it, fails in its second part. Here the key \<^verbatim>\<open>users\<close> holds the
  text \<^verbatim>\<open>null\<close> and the key \<^verbatim>\<open>posts\<close> holds \<^verbatim>\<open>[]\<close>. Each parses, and \<^verbatim>\<open>posts\<close> alone
  loads as the empty array; but \<^verbatim>\<open>.map\<close> on the users value throws, the outer \<^verbatim>\<open>catch\<close> of
  \<^verbatim>\<open>loadAllData\<close> returns the defaults for every collection, and the stored posts are
  replaced by the mock posts.
\<close>

theorem loadAllData_users_not_array_counterexample:
  "safeJSONParse JSON_parse_sample storageUsersNull ''posts'' (MOCK_POSTS mocksFixture)
     = Inr (JArr [])
   \<and> safeJSONParse JSON_parse_sample storageUsersNull ''users'' (MOCK_USERS mocksFixture)
     = Inr JNull
   \<and> loadAllData JSON_parse_sample storageUsersNull mocksFixture = Inr (resetData mocksFixture)
   \<and> loaded_posts (resetData mocksFixture) = JArr [JObj [(''id'', JNum 2), (''userId'', JNum 1)]]"
  by (simp add: safeJSONParse_def loadAllData_def tryCatch_def bindE_def jsMap_def
      JSON_parse_sample_def storageUsersNull_def mocksFixture_def resetData_def)

text \<open>
  C8, amended. \<^verbatim>\<open>safeJSONParse\<close> returns the fallback when the key is missing, when its
  text is empty and when the text fails to parse; it returns the parsed value
  otherwise; it never throws, and so it meets the contract \<open>load_spec\<close>. The bulk load
  never throws either. When the users value (stored, or the default) is an array with
  no null entry, every collection of the result is loaded from its own key with its
  own default, so a key that is missing or fails to parse changes no other
  collection. When the users value is anything else, the result is the default for
  every collection.
\<close>

theorem loadAllData_defaults_per_key:
  "(localStorage key = None \<or> localStorage key = Some ''''
      \<or> (\<exists>saved e. localStorage key = Some saved \<and> JSON_parse saved = Inl e)
    \<longrightarrow> safeJSONParse JSON_parse localStorage key fallback = Inr fallback)
   \<and> (\<forall>saved v. localStorage key = Some saved \<and> saved \<noteq> '''' \<and> JSON_parse saved = Inr v
        \<longrightarrow> safeJSONParse JSON_parse localStorage key fallback = Inr v)
   \<and> safeJSONParse JSON_parse localStorage key fallback
       = Inr (load_spec JSON_parse localStorage key fallback)
   \<and> (\<exists>d. loadAllData JSON_parse localStorage mocks = Inr d)
   \<and> (mappableUsers (load_spec JSON_parse localStorage ''users'' (MOCK_USERS mocks)) \<longrightarrow>
        (\<exists>us. jsMap migrateUser (load_spec JSON_parse localStorage ''users'' (MOCK_USERS mocks))
                = Inr us
           \<and> loadAllData JSON_parse localStorage mocks =
               Inr \<lparr>loaded_users = us,
                    loaded_posts = load_spec JSON_parse localStorage ''posts'' (MOCK_POSTS mocks),
                    loaded_festivals =
                      load_spec JSON_parse localStorage ''festivals'' (MOCK_FESTIVALS mocks),
                    loaded_aufguesse =
                      load_spec JSON_parse localStorage ''aufguesse'' (generatedAufguesse mocks),
                    loaded_awards = load_spec JSON_parse localStorage ''awards'' (MOCK_AWARDS mocks),
                    loaded_aufgussTypes =
                      load_spec JSON_parse localStorage ''aufgussTypes'' (DEFAULT_AUFGUSS_TYPES mocks),
                    loaded_availableQuals =
                      load_spec JSON_parse localStorage ''availableQuals''
                        (DEFAULT_QUALIFICATIONS mocks),
                    loaded_registrationCode =
                      getItemOr localStorage ''registrationCode'' ''123456'' (\<lambda>s. s),
                    loaded_selectedFestivalId =
                      getItemOr localStorage ''selectedFestivalId'' None Some,
                    loaded_persistedBackgrounds =
                      load_spec JSON_parse localStorage ''persistedBackgrounds'' (JObj [])\<rparr>))
   \<and> (\<not> mappableUsers (load_spec JSON_parse localStorage ''users'' (MOCK_USERS mocks)) \<longrightarrow>
        loadAllData JSON_parse localStorage mocks = Inr (resetData mocks))"
proof -
  have a: "localStorage key = None \<or> localStorage key = Some ''''
      \<or> (\<exists>saved e. localStorage key = Some saved \<and> JSON_parse saved = Inl e)
    \<longrightarrow> safeJSONParse JSON_parse localStorage key fallback = Inr fallback"
    by (auto simp: safeJSONParse_def tryCatch_def)
  have b: "\<forall>saved v. localStorage key = Some saved \<and> saved \<noteq> '''' \<and> JSON_parse saved = Inr v
        \<longrightarrow> safeJSONParse JSON_parse localStorage key fallback = Inr v"
    by (auto simp: safeJSONParse_def tryCatch_def)
  have c: "safeJSONParse JSON_parse localStorage key fallback
       = Inr (load_spec JSON_parse localStorage key fallback)"
    by (rule safeJSONParse_eq)
  have d: "\<exists>d. loadAllData JSON_parse localStorage mocks = Inr d"
    by (cases "jsMap migrateUser (load_spec JSON_parse localStorage ''users'' (MOCK_USERS mocks))")
       (auto dest: loadAllData_reset loadAllData_ok)
  have e: "\<not> mappableUsers (load_spec JSON_parse localStorage ''users'' (MOCK_USERS mocks)) \<longrightarrow>
        loadAllData JSON_parse localStorage mocks = Inr (resetData mocks)"
    using jsMap_migrate_fail loadAllData_reset by blast
  show ?thesis
    using a b c d e jsMap_migrate_ok loadAllData_ok by blast
qed

theorem loadAllData_defaults_per_key_witness:
  "safeJSONParse JSON_parse_sample storagePostsBroken ''posts'' (MOCK_POSTS mocksFixture)
     = Inr (MOCK_POSTS mocksFixture)
   \<and> mappableUsers (load_spec JSON_parse_sample storagePostsBroken ''users'' (MOCK_USERS mocksFixture))
   \<and> loadAllData JSON_parse_sample storagePostsBroken mocksFixture
       = Inr ((resetData mocksFixture)\<lparr>loaded_festivals := JArr []\<rparr>)"
  using loadAllData_defaults_per_key [of storagePostsBroken "''posts''" JSON_parse_sample "MOCK_POSTS mocksFixture" mocksFixture]
  by (simp add: safeJSONParse_def loadAllData_def tryCatch_def bindE_def jsMap_def
      migrateUser_def getProp_def ownProps_def mappableUsers_def load_spec_def getItemOr_def
      JSON_parse_sample_def storagePostsBroken_def mocksFixture_def resetData_def)


subsection \<open>Calendar arithmetic\<close>

text \<open>
  The day number of the first of the month of a day \<open>z\<close> is \<open>z\<close> less the days of the
  month gone by, so \<^verbatim>\<open>date.setDate(date.getDate() + k)\<close> moves a date by \<open>k\<close> days and
  keeps the local time of day.
\<close>

lemma first_of_month: "MakeDay (YearOfDay z) (MonthOfDay z) dt = z - DateOfDay z + dt"
proof -
  define doe where "doe = dayOfEra z"
  define c where "c = centuryOfEra doe"
  define doc where "doc = dayOfCentury doe"
  define q where "q = doc div 1461"
  define doq where "doq = doc mod 1461"
  define a where "a = yearOfCycle doq"
  define doy where "doy = dayOfYear doe"
  define yoe where "yoe = yearOfEra doe"
  define mp where "mp = monthFromMarch doy"
  define m where "m = MonthOfDay z"
  have doe: "0 \<le> doe" "doe < 146097" by (simp_all add: doe_def dayOfEra_def)
  have c: "0 \<le> c" "c \<le> 3" using doe by (simp_all add: c_def centuryOfEra_def)
  have doc: "0 \<le> doc" "doc \<le> 36524"
    using doe unfolding doc_def dayOfCentury_def centuryOfEra_def by (auto simp: min_def)
  have q: "0 \<le> q" "q \<le> 24" using doc by (simp_all add: q_def)
  have doq: "0 \<le> doq" "doq < 1461" by (simp_all add: doq_def)
  have a: "0 \<le> a" "a \<le> 3" using doq by (simp_all add: a_def yearOfCycle_def)
  have doy_eq: "doy = doq - a * 365" by (simp add: doy_def dayOfYear_def doq_def a_def doc_def)
  have doy: "0 \<le> doy" "doy \<le> 365"
    using doq unfolding doy_eq a_def yearOfCycle_def by (auto simp: min_def)
  have mp: "0 \<le> mp" "mp \<le> 11" using doy by (simp_all add: mp_def monthFromMarch_def)
  have yoe_eq: "yoe = c * 100 + q * 4 + a"
    by (simp add: yoe_def yearOfEra_def c_def q_def a_def doq_def doc_def)
  have yoe: "0 \<le> yoe" "yoe < 400" using c q a by (simp_all add: yoe_eq)
  have z: "z = eraOf z * 146097 + doe - 719468" by (simp add: eraOf_def doe_def dayOfEra_def)
  have doe_eq: "doe = c * 36524 + q * 1461 + a * 365 + doy"
    using doy_eq by (simp add: doq_def q_def doc_def dayOfCentury_def c_def)
  have y4: "yoe div 4 = c * 25 + q" using a by (simp add: yoe_eq)
  have y100: "yoe div 100 = c" using a q by (simp add: yoe_eq)
  have m_eq: "m = (if mp < 10 then mp + 2 else mp - 10)"
    by (simp add: m_def MonthOfDay_def mp_def doy_def doe_def)
  have m: "0 \<le> m" "m \<le> 11" using mp by (auto simp: m_eq)
  have ym: "YearOfDay z + m div 12 = YearOfDay z" "m mod 12 = m" using m by simp_all
  have y': "(if m \<le> 1 then YearOfDay z - 1 else YearOfDay z) = yoe + eraOf z * 400"
    by (simp add: YearOfDay_def m_def yoe_def doe_def)
  have e1: "(yoe + eraOf z * 400) div 400 = eraOf z" using yoe by simp
  have e2: "(yoe + eraOf z * 400) mod 400 = yoe" using yoe by simp
  have mp': "(if m > 1 then m - 2 else m + 10) = mp" using mp by (auto simp: m_eq)
  have d: "DateOfDay z = doy - dayBeforeMonth mp + 1"
    by (simp add: DateOfDay_def doy_def doe_def mp_def)
  have "MakeDay (YearOfDay z) m dt = z - DateOfDay z + dt"
    unfolding MakeDay_def days_from_civil_def ym y' e1 e2 mp' y4 y100 d
    using z doe_eq yoe_eq by linarith
  then show ?thesis by (simp add: m_def)
qed

lemma setDate_shift: "setDate tza t (getDate tza t + k) = t + k * msPerDay"
proof -
  have "MakeDay (getFullYear tza t) (getMonth tza t) (getDate tza t + k) = Day (LocalTime tza t) + k"
    unfolding getFullYear_def getMonth_def getDate_def first_of_month by simp
  then have "setDate tza t (getDate tza t + k)
             = (Day (LocalTime tza t) + k) * msPerDay + TimeWithinDay (LocalTime tza t) - tza"
    by (simp add: setDate_def UTC_def MakeDate_def)
  also have "\<dots> = LocalTime tza t + k * msPerDay - tza"
    by (simp add: Day_def TimeWithinDay_def algebra_simps)
  finally show ?thesis by (simp add: LocalTime_def)
qed

lemma Day_shift: "Day (t + k * msPerDay) = Day t + k"
  by (simp add: Day_def msPerDay_def)

lemma TimeWithinDay_shift: "TimeWithinDay (t + k * msPerDay) = TimeWithinDay t"
  by (simp add: TimeWithinDay_def)

lemma setHours_local:
  "0 \<le> MakeTime h m s ms \<Longrightarrow> MakeTime h m s ms < msPerDay \<Longrightarrow>
   Day (LocalTime tza (setHours tza t h m s ms)) = Day (LocalTime tza t)
   \<and> TimeWithinDay (LocalTime tza (setHours tza t h m s ms)) = MakeTime h m s ms"
  by (simp add: setHours_def LocalTime_def UTC_def MakeDate_def Day_def TimeWithinDay_def
      msPerDay_def div_pos_pos_trivial)

lemma daysToGoBack_range: "1 \<le> daysToGoBack w \<and> daysToGoBack w \<le> 7"
  unfolding daysToGoBack_def
  using pos_mod_sign[of 7 "w + 7 - 4"] pos_mod_bound[of 7 "w + 7 - 4"] by auto

lemma daysToGoBack_weekday:
  assumes "0 \<le> w" "w < 7"
  shows "(w - daysToGoBack w) mod 7 = 4"
proof -
  have "w = 0 \<or> w = 1 \<or> w = 2 \<or> w = 3 \<or> w = 4 \<or> w = 5 \<or> w = 6" using assms by arith
  then show ?thesis by (auto simp: daysToGoBack_def)
qed

lemma thursday_reached:
  assumes "R = D - daysToGoBack ((D + 4) mod 7)"
  shows "(R + 4) mod 7 = 4"
proof -
  have "(R + 4) mod 7 = ((D + 4) mod 7 - daysToGoBack ((D + 4) mod 7)) mod 7"
    unfolding assms by (simp add: mod_diff_left_eq algebra_simps)
  then show ?thesis using daysToGoBack_weekday[of "(D + 4) mod 7"] by simp
qed

lemma no_thursday_between:
  assumes "R = D - daysToGoBack ((D + 4) mod 7)" "R < d" "d < D"
  shows "(d + 4) mod 7 \<noteq> 4"
proof
  assume d: "(d + 4) mod 7 = 4"
  have R: "(R + 4) mod 7 = 4" using assms(1) by (rule thursday_reached)
  have "(d - R) mod 7 = 0"
    using d R by (metis add_diff_cancel_right' cancel_comm_monoid_add_class.diff_cancel mod_0 mod_diff_eq)
  moreover have "0 < d - R" "d - R < 7"
    using assms daysToGoBack_range[of "(D + 4) mod 7"] by simp_all
  ultimately show False by simp
qed

lemma getThursdayBefore_local:
  "Day (LocalTime tza (getThursdayBefore tza s))
     = Day (LocalTime tza s) - daysToGoBack (WeekDay (LocalTime tza s))
   \<and> TimeWithinDay (LocalTime tza (getThursdayBefore tza s)) = MakeTime 22 0 0 0"
proof -
  define d0 where "d0 = setHours tza s 0 0 0 0"
  define k where "k = daysToGoBack (getDay tza d0)"
  have d0: "Day (LocalTime tza d0) = Day (LocalTime tza s)"
    unfolding d0_def using setHours_local[of 0 0 0 0 tza s] by (simp add: MakeTime_def msPerDay_def)
  have wd: "getDay tza d0 = WeekDay (LocalTime tza s)"
    by (simp add: getDay_def WeekDay_def d0)
  have d1: "setDate tza d0 (getDate tza d0 - k) = d0 + (- k) * msPerDay"
    using setDate_shift[of tza d0 "- k"] by simp
  have "Day (LocalTime tza (d0 + (- k) * msPerDay)) = Day (LocalTime tza s) - k"
  proof -
    have "LocalTime tza (d0 + (- k) * msPerDay) = LocalTime tza d0 + (- k) * msPerDay"
      by (simp add: LocalTime_def)
    then show ?thesis using Day_shift[of "LocalTime tza d0" "- k"] d0 by simp
  qed
  moreover have "getThursdayBefore tza s = setHours tza (d0 + (- k) * msPerDay) 22 0 0 0"
    unfolding getThursdayBefore_def Let_def d0_def[symmetric] k_def[symmetric] d1 ..
  ultimately show ?thesis
    using setHours_local[of 22 0 0 0 tza "d0 + (- k) * msPerDay"] wd
    by (simp add: MakeTime_def msPerDay_def k_def)
qed

subsection \<open>The RSVP deadline\<close>

text \<open>
  In local time, for the instant it is given, \<^verbatim>\<open>getThursdayBefore\<close> returns 22:00 of
  the most recent Thursday strictly before the local day of that instant: 7 days
  earlier when that day is a Thursday, 6 days earlier when it is a Wednesday.
\<close>

lemma getThursdayBefore_local_day:
  "getDay tza (getThursdayBefore tza s) = 4
   \<and> TimeWithinDay (LocalTime tza (getThursdayBefore tza s)) = MakeTime 22 0 0 0
   \<and> Day (LocalTime tza (getThursdayBefore tza s)) < Day (LocalTime tza s)
   \<and> (\<forall>d. Day (LocalTime tza (getThursdayBefore tza s)) < d \<and> d < Day (LocalTime tza s)
          \<longrightarrow> (d + 4) mod 7 \<noteq> 4)
   \<and> (getDay tza s = 4 \<longrightarrow>
         Day (LocalTime tza (getThursdayBefore tza s)) = Day (LocalTime tza s) - 7)
   \<and> (getDay tza s = 3 \<longrightarrow>
         Day (LocalTime tza (getThursdayBefore tza s)) = Day (LocalTime tza s) - 6)"
proof -
  define D where "D = Day (LocalTime tza s)"
  define R where "R = Day (LocalTime tza (getThursdayBefore tza s))"
  have R: "R = D - daysToGoBack ((D + 4) mod 7)"
    using getThursdayBefore_local[of tza s] by (simp add: R_def D_def WeekDay_def)
  have t: "TimeWithinDay (LocalTime tza (getThursdayBefore tza s)) = MakeTime 22 0 0 0"
    using getThursdayBefore_local[of tza s] by simp
  have thu: "(R + 4) mod 7 = 4" using R by (rule thursday_reached)
  have lt: "R < D" unfolding R using daysToGoBack_range[of "(D + 4) mod 7"] by simp
  have recent: "\<forall>d. R < d \<and> d < D \<longrightarrow> (d + 4) mod 7 \<noteq> 4"
    using no_thursday_between[OF R] by blast
  have c4: "(D + 4) mod 7 = 4 \<longrightarrow> R = D - 7" unfolding R daysToGoBack_def by simp
  have c3: "(D + 4) mod 7 = 3 \<longrightarrow> R = D - 6" unfolding R daysToGoBack_def by simp
  show ?thesis
    using thu t lt recent c4 c3
    unfolding getDay_def WeekDay_def R_def[symmetric] D_def[symmetric] by blast
qed

text \<open>
  C5 at two inputs. The callers do not pass the festival's start date as a local day.
  \<^verbatim>\<open>handleCreateFestival\<close> passes the date text read as midnight UTC: five hours west of
  UTC the start date 2025-09-12, a Friday, is still Thursday 11 September in local
  time, so the deadline stored is 22:00 on 4 September (03:00 UTC on the 5th), eight
  days before the start date, where the claim has 11 September. \<^verbatim>\<open>MOCK_FESTIVALS\<close>
  stores the UTC date of a moment as the start date: loaded on 2 September 2025 at
  00:30 local time, two hours east of UTC, its start date is 2025-09-11, a Thursday,
  and its deadline is 22:00 local time on that same day, where the claim, like the
  comment in the source (if it is already Thursday, go to the previous Thursday), has
  the deadline seven days earlier.
\<close>

theorem rsvpDeadline_misses_thursday_before_start_date:
  "parseDateOnly ''2025-09-12'' = Some 1757635200000
   \<and> WeekDay 1757635200000 = 5
   \<and> handleCreateFestival parseDateOnly (- 18000000) 1757000000000 stateFixture
         festivalDataFixture
       = Inr (stateFixture
               \<lparr>festivals := festivals stateFixture @
                  [\<lparr>festival_id = ''fest-1757000000000'', festival_name = ''Herbstfest'',
                    startDate = ''2025-09-12'', endDate = ''2025-09-14'',
                    rsvpDeadline = ''2025-09-05T03:00:00.000Z'',
                    festival_location = ''Panoramabad Freudenstadt'', numberOfSaunas = 2,
                    aufgussTimes = [], tasks = [],
                    participants = [pendingParticipant user2, pendingParticipant user3]\<rparr>],
                selectedFestivalId := ''fest-1757000000000''\<rparr>)
   \<and> toISODate (LocalTime (- 18000000) (getThursdayBefore (- 18000000) 1757635200000))
       = ''2025-09-04''
   \<and> mockFestivalStartDate 7200000 1756765800000 = ''2025-09-11''
   \<and> map_option WeekDay (parseDateOnly ''2025-09-11'') = Some 4
   \<and> mockFestivalRsvpDeadline 7200000 1756765800000 = ''2025-09-11T20:00:00.000Z''
   \<and> toISODate (LocalTime 7200000
                    (getThursdayBefore 7200000 (upcomingFestivalDate 7200000 1756765800000)))
       = ''2025-09-11''"
proof -
  have a: "parseDateOnly ''2025-09-12'' = Some 1757635200000" by code_simp
  have b: "WeekDay 1757635200000 = 5" by code_simp
  have c: "handleCreateFestival parseDateOnly (- 18000000) 1757000000000 stateFixture
         festivalDataFixture
       = Inr (stateFixture
               \<lparr>festivals := festivals stateFixture @
                  [\<lparr>festival_id = ''fest-1757000000000'', festival_name = ''Herbstfest'',
                    startDate = ''2025-09-12'', endDate = ''2025-09-14'',
                    rsvpDeadline = ''2025-09-05T03:00:00.000Z'',
                    festival_location = ''Panoramabad Freudenstadt'', numberOfSaunas = 2,
                    aufgussTimes = [], tasks = [],
                    participants = [pendingParticipant user2, pendingParticipant user3]\<rparr>],
                selectedFestivalId := ''fest-1757000000000''\<rparr>)"
    by code_simp
  have d: "toISODate (LocalTime (- 18000000) (getThursdayBefore (- 18000000) 1757635200000))
       = ''2025-09-04''"
    by code_simp
  have e: "mockFestivalStartDate 7200000 1756765800000 = ''2025-09-11''" by code_simp
  have f: "map_option WeekDay (parseDateOnly ''2025-09-11'') = Some 4" by code_simp
  have g: "mockFestivalRsvpDeadline 7200000 1756765800000 = ''2025-09-11T20:00:00.000Z''"
    by code_simp
  have h: "toISODate (LocalTime 7200000
                    (getThursdayBefore 7200000 (upcomingFestivalDate 7200000 1756765800000)))
       = ''2025-09-11''"
    by code_simp
  show ?thesis using a b c d e f g h by (simp only: simp_thms)
qed

subsection \<open>The slot generator\<close>

lemma currentDate_eq: "currentDate tza today day = today + day * msPerDay"
  by (simp add: currentDate_def setDate_shift)

lemma pushSlots_elem:
  "a \<in> set (pushSlots loc d tms) \<Longrightarrow> \<exists>sn tm. a = newSlot loc sn d tm"
  by (auto simp: pushSlots_def)

lemma hswSlots_elem:
  "a \<in> set (hswSlots tza cd) \<Longrightarrow> \<exists>sn tm. a = newSlot (SAUNA_LOCATIONS ! 2) sn (toISODate cd) tm"
  by (auto simp: hswSlots_def dest: pushSlots_elem split: if_splits)

lemma dayAufguesse_elem:
  assumes "a \<in> set (dayAufguesse tza today day)"
  shows "\<exists>loc sn tm. loc \<in> set SAUNA_LOCATIONS
           \<and> a = newSlot loc sn (toISODate (currentDate tza today day)) tm"
proof -
  from assms consider
      "a \<in> set (pushSlots (SAUNA_LOCATIONS ! 0) (toISODate (currentDate tza today day))
                  (fdsTimes (getDay tza (currentDate tza today day))))"
    | "a \<in> set (pushSlots (SAUNA_LOCATIONS ! 1) (toISODate (currentDate tza today day))
                  (hourTimes 10 20 '':30''))"
    | "a \<in> set (hswSlots tza (currentDate tza today day))"
    by (auto simp: dayAufguesse_def)
  then show ?thesis
  proof cases
    case 1
    then show ?thesis using pushSlots_elem by (fastforce simp: SAUNA_LOCATIONS_def)
  next
    case 2
    then show ?thesis using pushSlots_elem by (fastforce simp: SAUNA_LOCATIONS_def)
  next
    case 3
    then show ?thesis using hswSlots_elem by (fastforce simp: SAUNA_LOCATIONS_def)
  qed
qed

lemma newSlot_not_test:
  "loc \<in> set SAUNA_LOCATIONS \<Longrightarrow> aufguss_id (newSlot loc sn d tm) \<noteq> ''test-aufguss-past''"
  by (auto simp: SAUNA_LOCATIONS_def newSlot_def)

lemma window_elem:
  assumes "a \<in> set (concat (map (dayAufguesse tza today) [0..29]))"
  shows "aufguss_id a \<noteq> ''test-aufguss-past'' \<and> aufgussmeisterId a = None
         \<and> aufgussmeisterName a = None \<and> aufguss_type a = None
         \<and> (\<exists>day. 0 \<le> day \<and> day \<le> 29 \<and> date a = toISODate (currentDate tza today day))"
proof -
  from assms obtain day where d: "0 \<le> day" "day \<le> 29" and a: "a \<in> set (dayAufguesse tza today day)"
    by auto
  from dayAufguesse_elem[OF a] obtain loc sn tm where
    l: "loc \<in> set SAUNA_LOCATIONS" and e: "a = newSlot loc sn (toISODate (currentDate tza today day)) tm"
    by blast
  have "aufguss_id a \<noteq> ''test-aufguss-past''" unfolding e using l by (rule newSlot_not_test)
  moreover have "aufgussmeisterId a = None \<and> aufgussmeisterName a = None \<and> aufguss_type a = None
                 \<and> date a = toISODate (currentDate tza today day)"
    by (simp add: e newSlot_def)
  ultimately show ?thesis using d by blast
qed

lemma Day_back: "Day (now - 1296000000) = Day now - 15"
  using Day_shift[of now "- 15"] by (simp add: msPerDay_def)

lemma Day_mono: "s \<le> t \<Longrightarrow> Day s \<le> Day t"
  by (simp add: Day_def msPerDay_def zdiv_mono1)

text \<open>
  C9. Provided the second reading of the clock is less than a day after the first: the
  output is the slots of the 30 days followed by one more slot; that slot is the only
  one with the id \<open>test-aufguss-past\<close>, it is claimed by user 2 with the type
  \<open>Test Aufguss\<close>, and its date is the UTC date of the moment 15 days before \<open>now\<close>,
  whose day number is 15 less than that of \<open>now\<close> and smaller than the day number of
  every day of the window. Every slot of the window is unclaimed and carries the date
  of one of the 30 days. So the output is never entirely unclaimed.
\<close>

theorem generateInitialAufguesse_test_slot:
  assumes "now < today + msPerDay"
  shows
  "generateInitialAufguesse tza today now
     = butlast (generateInitialAufguesse tza today now) @ [testAufgussPast now]
   \<and> filter (\<lambda>a. aufguss_id a = ''test-aufguss-past'') (generateInitialAufguesse tza today now)
       = [testAufgussPast now]
   \<and> aufgussmeisterId (testAufgussPast now) = Some 2
   \<and> aufguss_type (testAufgussPast now) = Some ''Test Aufguss''
   \<and> date (testAufgussPast now) = toISODate (now - 15 * 24 * 60 * 60 * 1000)
   \<and> Day (now - 15 * 24 * 60 * 60 * 1000) = Day now - 15
   \<and> (\<forall>a \<in> set (butlast (generateInitialAufguesse tza today now)).
         aufgussmeisterId a = None
         \<and> (\<exists>day. 0 \<le> day \<and> day \<le> 29 \<and> date a = toISODate (currentDate tza today day)))
   \<and> (\<forall>day. 0 \<le> day \<and> day \<le> 29 \<longrightarrow>
         Day (now - 15 * 24 * 60 * 60 * 1000) < Day (currentDate tza today day))
   \<and> \<not> list_all (\<lambda>a. aufgussmeisterId a = None) (generateInitialAufguesse tza today now)"
proof -
  let ?w = "concat (map (dayAufguesse tza today) [0..29])"
  have g: "generateInitialAufguesse tza today now = ?w @ [testAufgussPast now]"
    by (simp add: generateInitialAufguesse_def)
  have b: "butlast (generateInitialAufguesse tza today now) = ?w"
    unfolding g by simp
  have f: "filter (\<lambda>a. aufguss_id a = ''test-aufguss-past'') ?w = []"
    using window_elem[of _ tza today] by (auto simp only: filter_empty_conv)
  have t: "aufguss_id (testAufgussPast now) = ''test-aufguss-past''"
    by (simp add: testAufgussPast_def)
  have days: "\<forall>day. 0 \<le> day \<and> day \<le> 29 \<longrightarrow>
         Day (now - 15 * 24 * 60 * 60 * 1000) < Day (currentDate tza today day)"
  proof (intro allI impI)
    fix day :: int assume d: "0 \<le> day \<and> day \<le> 29"
    have "Day now \<le> Day (today + 1 * msPerDay)" using assms by (intro Day_mono) simp
    then have "Day now \<le> Day today + 1" using Day_shift[of today 1] by simp
    then show "Day (now - 15 * 24 * 60 * 60 * 1000) < Day (currentDate tza today day)"
      using d by (simp add: Day_back currentDate_eq Day_shift)
  qed
  show ?thesis
    unfolding b
    using f t days window_elem[of _ tza today]
    by (auto simp: g Day_back testAufgussPast_def)
qed


theorem generateInitialAufguesse_test_slot_witness:
  "filter (\<lambda>a. aufguss_id a = ''test-aufguss-past'')
          (generateInitialAufguesse 7200000 1756634400000 1756634400000)
     = [testAufgussPast 1756634400000]
   \<and> date (testAufgussPast 1756634400000) = ''2025-08-16''
   \<and> toISODate 1756634400000 = ''2025-08-31''
   \<and> \<not> list_all (\<lambda>a. aufgussmeisterId a = None)
            (generateInitialAufguesse 7200000 1756634400000 1756634400000)"
proof -
  have h: "(1756634400000::int) < 1756634400000 + msPerDay" by (simp add: msPerDay_def)
  have e: "date (testAufgussPast 1756634400000) = ''2025-08-16''" by code_simp
  have n: "toISODate 1756634400000 = ''2025-08-31''" by code_simp
  from generateInitialAufguesse_test_slot [OF h, of 7200000]
  have "filter (\<lambda>a. aufguss_id a = ''test-aufguss-past'')
          (generateInitialAufguesse 7200000 1756634400000 1756634400000)
        = [testAufgussPast 1756634400000]
      \<and> \<not> list_all (\<lambda>a. aufgussmeisterId a = None)
            (generateInitialAufguesse 7200000 1756634400000 1756634400000)"
    by blast
  then show ?thesis using e n by (simp only: simp_thms)
qed


lemma slotsAt_generate:
  "slotsAt loc d (generateInitialAufguesse tza today now)
     = concat (map (\<lambda>day. slotsAt loc d (dayAufguesse tza today day)) [0..29])
       @ slotsAt loc d [testAufgussPast now]"
  by (simp add: slotsAt_def generateInitialAufguesse_def filter_concat comp_def)

lemma slotsAt_other_date:
  assumes "toISODate (currentDate tza today day) \<noteq> d"
  shows "slotsAt loc d (dayAufguesse tza today day) = []"
proof -
  have "\<forall>a \<in> set (dayAufguesse tza today day). date a \<noteq> d"
    using dayAufguesse_elem[of _ tza today day] assms by (fastforce simp: newSlot_def)
  then show ?thesis by (simp add: slotsAt_def filter_empty_conv)
qed

lemma slotsAt_other_dates:
  assumes "list_all (\<lambda>day. toISODate (currentDate tza today day) \<noteq> d) ks"
  shows "concat (map (\<lambda>day. slotsAt loc d (dayAufguesse tza today day)) ks) = []"
  using assms by (induction ks) (simp_all add: slotsAt_other_date)

text \<open>
  C2 at a generation on 31 August 2025, 12:00 local time, two hours east of UTC. The
  closure date is midnight at the start of 31 August and the current date carries the
  time of day, so the comparison holds on that day: the output has all 22 slots of
  Location C dated 2025-08-31, where the claim, like the comment in the source (closed
  until end of August), has none.
\<close>

theorem generateInitialAufguesse_august_31:
  "getFullYear 7200000 1756634400000 = 2025
   \<and> getMonth 7200000 1756634400000 = 7
   \<and> getDate 7200000 1756634400000 = 31
   \<and> map time (slotsAt (SAUNA_LOCATIONS ! 2) ''2025-08-31''
                   (generateInitialAufguesse 7200000 1756634400000 1756634400000))
       = [''10:00'', ''11:00'', ''12:00'', ''13:00'', ''14:00'', ''15:00'', ''16:00'',
          ''17:00'', ''18:00'', ''19:00'', ''20:00'',
          ''10:00'', ''11:00'', ''12:00'', ''13:00'', ''14:00'', ''15:00'', ''16:00'',
          ''17:00'', ''18:00'', ''19:00'', ''20:00'']"
proof -
  have y: "getFullYear 7200000 1756634400000 = 2025" by code_simp
  have m: "getMonth 7200000 1756634400000 = 7" by code_simp
  have d: "getDate 7200000 1756634400000 = 31" by code_simp
  have u: "([0..29]::int list) = [0, 1, 2, 3, 4, 5, 6, 7, 8, 9, 10, 11, 12, 13, 14, 15, 16, 17, 18, 19, 20, 21, 22, 23, 24, 25, 26, 27, 28, 29]"
    by (simp add: upto_rec1)
  have dates: "toISODate (currentDate 7200000 1756634400000 1) = ''2025-09-01'' \<and>
          toISODate (currentDate 7200000 1756634400000 2) = ''2025-09-02'' \<and>
          toISODate (currentDate 7200000 1756634400000 3) = ''2025-09-03'' \<and>
          toISODate (currentDate 7200000 1756634400000 4) = ''2025-09-04'' \<and>
          toISODate (currentDate 7200000 1756634400000 5) = ''2025-09-05'' \<and>
          toISODate (currentDate 7200000 1756634400000 6) = ''2025-09-06'' \<and>
          toISODate (currentDate 7200000 1756634400000 7) = ''2025-09-07'' \<and>
          toISODate (currentDate 7200000 1756634400000 8) = ''2025-09-08'' \<and>
          toISODate (currentDate 7200000 1756634400000 9) = ''2025-09-09'' \<and>
          toISODate (currentDate 7200000 1756634400000 10) = ''2025-09-10'' \<and>
          toISODate (currentDate 7200000 1756634400000 11) = ''2025-09-11'' \<and>
          toISODate (currentDate 7200000 1756634400000 12) = ''2025-09-12'' \<and>
          toISODate (currentDate 7200000 1756634400000 13) = ''2025-09-13'' \<and>
          toISODate (currentDate 7200000 1756634400000 14) = ''2025-09-14'' \<and>
          toISODate (currentDate 7200000 1756634400000 15) = ''2025-09-15'' \<and>
          toISODate (currentDate 7200000 1756634400000 16) = ''2025-09-16'' \<and>
          toISODate (currentDate 7200000 1756634400000 17) = ''2025-09-17'' \<and>
          toISODate (currentDate 7200000 1756634400000 18) = ''2025-09-18'' \<and>
          toISODate (currentDate 7200000 1756634400000 19) = ''2025-09-19'' \<and>
          toISODate (currentDate 7200000 1756634400000 20) = ''2025-09-20'' \<and>
          toISODate (currentDate 7200000 1756634400000 21) = ''2025-09-21'' \<and>
          toISODate (currentDate 7200000 1756634400000 22) = ''2025-09-22'' \<and>
          toISODate (currentDate 7200000 1756634400000 23) = ''2025-09-23'' \<and>
          toISODate (currentDate 7200000 1756634400000 24) = ''2025-09-24'' \<and>
          toISODate (currentDate 7200000 1756634400000 25) = ''2025-09-25'' \<and>
          toISODate (currentDate 7200000 1756634400000 26) = ''2025-09-26'' \<and>
          toISODate (currentDate 7200000 1756634400000 27) = ''2025-09-27'' \<and>
          toISODate (currentDate 7200000 1756634400000 28) = ''2025-09-28'' \<and>
          toISODate (currentDate 7200000 1756634400000 29) = ''2025-09-29''"
    by code_simp
  have t: "slotsAt (SAUNA_LOCATIONS ! 2) ''2025-08-31'' [testAufgussPast 1756634400000] = []"
    by code_simp
  have d0: "map time (slotsAt (SAUNA_LOCATIONS ! 2) ''2025-08-31''
                        (dayAufguesse 7200000 1756634400000 0))
       = [''10:00'', ''11:00'', ''12:00'', ''13:00'', ''14:00'', ''15:00'', ''16:00'',
          ''17:00'', ''18:00'', ''19:00'', ''20:00'',
          ''10:00'', ''11:00'', ''12:00'', ''13:00'', ''14:00'', ''15:00'', ''16:00'',
          ''17:00'', ''18:00'', ''19:00'', ''20:00'']"
    by code_simp
  have "slotsAt (SAUNA_LOCATIONS ! 2) ''2025-08-31''
          (generateInitialAufguesse 7200000 1756634400000 1756634400000)
        = slotsAt (SAUNA_LOCATIONS ! 2) ''2025-08-31'' (dayAufguesse 7200000 1756634400000 0)"
    unfolding slotsAt_generate u t
    using dates by (simp add: slotsAt_other_date)
  then show ?thesis using y m d d0 by (simp only: simp_thms)
qed


text \<open>
  The closure date is taken in the year of each day, so the test also fails again from
  1 January: in a window generated on 15 December 2025 (13:00 local time, one hour east
  of UTC) the day 1 January 2026 has no slot of Location C.
\<close>

lemma hswSlots_new_year:
  "toISODate (currentDate 3600000 1765800000000 17) = ''2026-01-01''
   \<and> hswSlots 3600000 (currentDate 3600000 1765800000000 17) = []
   \<and> length (hswSlots 3600000 (currentDate 3600000 1765800000000 16)) = 22"
  by code_simp

subsection \<open>Cancelling a slot\<close>

text \<open>
  C3, as the claim states it, fails: behind the test for an owner the handler asks
  \<^verbatim>\<open>window.confirm\<close>, and when the user declines, a claimed slot keeps its owner and no
  counter changes.
\<close>

theorem handleCancelAufguss_declined_counterexample:
  "map aufgussmeisterId (aufguesse stateFixture) = [Some 2, None]
   \<and> handleCancelAufguss parseFixture False 1756881000000 user2 stateFixture (aufguss_id takenSlot)
       = stateFixture"
  by (simp add: handleCancelAufguss_def fixture_defs)

text \<open>
  C3, amended. Let \<open>slot\<close> be the slot the id names (the first with that id). Cancel
  slot is a no-op when the slot is unclaimed, and when the user declines the dialog.
  When the user confirms and the slot is claimed by a user with a non-zero id, every
  slot with the id gets its three owner fields cleared and keeps its other fields, the
  other slots are unchanged, and every user with the owner's id gets \<open>aufgussCount\<close>
  lowered by one but not below 0 and \<open>shortNoticeCancellations\<close> raised by one exactly
  if the slot's date and time parse to a moment less than 24 hours after the moment
  of cancellation; the other users are unchanged.
\<close>

theorem handleCancelAufguss_confirmed:
  assumes found: "find (\<lambda>a. aufguss_id a = aufgussId) (aufguesse st) = Some slot"
  shows
  "(aufgussmeisterId slot = None \<longrightarrow>
      handleCancelAufguss parseDateTime confirmed now cu st aufgussId = st)
   \<and> (\<not> confirmed \<longrightarrow>
      handleCancelAufguss parseDateTime confirmed now cu st aufgussId = st)
   \<and> (\<forall>meisterId. confirmed \<and> aufgussmeisterId slot = Some meisterId \<and> meisterId \<noteq> 0 \<longrightarrow>
        (let st' = handleCancelAufguss parseDateTime confirmed now cu st aufgussId in
           length (aufguesse st') = length (aufguesse st)
         \<and> (\<forall>i < length (aufguesse st).
              aufguesse st' ! i =
                (if aufguss_id (aufguesse st ! i) = aufgussId
                 then (aufguesse st ! i)\<lparr>aufgussmeisterId := None, aufgussmeisterName := None,
                         aufguss_type := None\<rparr>
                 else aufguesse st ! i))
         \<and> length (users st') = length (users st)
         \<and> (\<forall>i < length (users st).
              users st' ! i =
                (if user_id (users st ! i) = meisterId
                 then (users st ! i)\<lparr>aufgussCount := max 0 (aufgussCount (users st ! i) - 1),
                         shortNoticeCancellations :=
                           shortNoticeCancellations (users st ! i)
                           + (if \<exists>t. parseDateTime (date slot @ ''T'' @ time slot) = Some t
                                     \<and> t - now < 24 * 60 * 60 * 1000
                              then 1 else 0)\<rparr>
                 else users st ! i))))"
proof (intro conjI allI impI)
  assume "aufgussmeisterId slot = None"
  then show "handleCancelAufguss parseDateTime confirmed now cu st aufgussId = st"
    using found by (simp add: handleCancelAufguss_def)
next
  assume "\<not> confirmed"
  then show "handleCancelAufguss parseDateTime confirmed now cu st aufgussId = st"
    using found by (simp add: handleCancelAufguss_def split: option.splits)
next
  fix meisterId
  assume a: "confirmed \<and> aufgussmeisterId slot = Some meisterId \<and> meisterId \<noteq> 0"
  have sn: "isShortNotice parseDateTime now slot \<longleftrightarrow>
              (\<exists>t. parseDateTime (date slot @ ''T'' @ time slot) = Some t \<and> t - now < 24 * 60 * 60 * 1000)"
    by (auto simp: isShortNotice_def split: option.splits)
  show "let st' = handleCancelAufguss parseDateTime confirmed now cu st aufgussId in
           length (aufguesse st') = length (aufguesse st)
         \<and> (\<forall>i < length (aufguesse st).
              aufguesse st' ! i =
                (if aufguss_id (aufguesse st ! i) = aufgussId
                 then (aufguesse st ! i)\<lparr>aufgussmeisterId := None, aufgussmeisterName := None,
                         aufguss_type := None\<rparr>
                 else aufguesse st ! i))
         \<and> length (users st') = length (users st)
         \<and> (\<forall>i < length (users st).
              users st' ! i =
                (if user_id (users st ! i) = meisterId
                 then (users st ! i)\<lparr>aufgussCount := max 0 (aufgussCount (users st ! i) - 1),
                         shortNoticeCancellations :=
                           shortNoticeCancellations (users st ! i)
                           + (if \<exists>t. parseDateTime (date slot @ ''T'' @ time slot) = Some t
                                     \<and> t - now < 24 * 60 * 60 * 1000
                              then 1 else 0)\<rparr>
                 else users st ! i))"
    using found a unfolding sn[symmetric]
    by (simp add: handleCancelAufguss_def Let_def max_def)
qed


theorem handleCancelAufguss_confirmed_witness:
  "map aufgussmeisterId
        (aufguesse (handleCancelAufguss parseFixture True 1756881000000 user2 stateFixture
                      (aufguss_id takenSlot))) = [None, None]
   \<and> map aufgussCount
        (users (handleCancelAufguss parseFixture True 1756881000000 user2 stateFixture
                  (aufguss_id takenSlot))) = [11, 0]
   \<and> map shortNoticeCancellations
        (users (handleCancelAufguss parseFixture True 1756881000000 user2 stateFixture
                  (aufguss_id takenSlot))) = [2, 0]
   \<and> map shortNoticeCancellations
        (users (handleCancelAufguss parseFixture True 1756801800000 user2 stateFixture
                  (aufguss_id takenSlot))) = [1, 0]
   \<and> handleCancelAufguss parseFixture True 1756881000000 user3 stateFixture (aufguss_id freeSlot)
       = stateFixture"
proof -
  have f: "find (\<lambda>a. aufguss_id a = aufguss_id takenSlot) (aufguesse stateFixture) = Some takenSlot"
    by (simp add: fixture_defs)
  have g: "find (\<lambda>a. aufguss_id a = aufguss_id freeSlot) (aufguesse stateFixture) = Some freeSlot"
    by (simp add: fixture_defs)
  show ?thesis
    using handleCancelAufguss_confirmed [OF f, of parseFixture True 1756881000000 user2]
          handleCancelAufguss_confirmed [OF g, of parseFixture True 1756881000000 user3]
    by (simp add: handleCancelAufguss_def isShortNotice_def Let_def fixture_defs)
qed

subsection \<open>Deleting a festival\<close>

text \<open>
  C7, as the claim states it, fails: the handler first asks \<^verbatim>\<open>window.confirm\<close>, and when
  the user declines the festival stays in the collection.
\<close>

theorem onDeleteFestival_declined_counterexample:
  "map festival_id (festivals (onDeleteFestival False stateFixture ''sommerfest-2024''))
     = [''sommerfest-2024'', ''fest-1756888200000'']"
  by (simp add: onDeleteFestival_def fixture_defs)


text \<open>
  C7, amended. Delete festival, once the user has confirmed the dialog, removes the
  festival with the id from the collection; if that id was the selected one the
  selection becomes the id of the first festival left, or the empty string when none
  is left; otherwise the selection is unchanged; nothing else of the state changes.
  When the user declines, nothing changes.
\<close>

theorem onDeleteFestival_confirmed:
  "(\<not> confirmed \<longrightarrow> onDeleteFestival confirmed st festivalId = st)
   \<and> (confirmed \<longrightarrow>
        festivals (onDeleteFestival confirmed st festivalId)
          = filter (\<lambda>f. festival_id f \<noteq> festivalId) (festivals st)
      \<and> festivalId \<notin> festival_id ` set (festivals (onDeleteFestival confirmed st festivalId))
      \<and> (selectedFestivalId st = festivalId \<longrightarrow>
            selectedFestivalId (onDeleteFestival confirmed st festivalId)
              = (case festivals (onDeleteFestival confirmed st festivalId) of
                   [] \<Rightarrow> '''' | f # _ \<Rightarrow> festival_id f))
      \<and> (selectedFestivalId st \<noteq> festivalId \<longrightarrow>
            selectedFestivalId (onDeleteFestival confirmed st festivalId) = selectedFestivalId st)
      \<and> onDeleteFestival confirmed st festivalId
          = st\<lparr>festivals := festivals (onDeleteFestival confirmed st festivalId),
               selectedFestivalId := selectedFestivalId (onDeleteFestival confirmed st festivalId)\<rparr>)"
  by (auto simp: onDeleteFestival_def Let_def split: list.splits)


theorem onDeleteFestival_confirmed_witness:
  "map festival_id (festivals (onDeleteFestival True stateFixture ''sommerfest-2024''))
     = [''fest-1756888200000'']
   \<and> selectedFestivalId (onDeleteFestival True stateFixture ''sommerfest-2024'')
     = ''fest-1756888200000''
   \<and> selectedFestivalId (onDeleteFestival True stateFixture ''fest-1756888200000'')
     = ''sommerfest-2024''"
  using onDeleteFestival_confirmed [of True stateFixture "''sommerfest-2024''"]
        onDeleteFestival_confirmed [of True stateFixture "''fest-1756888200000''"]
  by (simp add: onDeleteFestival_def Let_def fixture_defs)


end
